theory Spec2Isabelle
  imports Complex_Main "HOL-Library.Sublist" "HOL-Library.AList"
begin

section \<open>DoujinShelf: the catalogue filter and the extra-attribute form of App.jsx\<close>

text \<open>
  The development embeds the data logic of \<^verbatim>\<open>src/frontend/src/App.jsx\<close>: the
  \<^verbatim>\<open>filteredWorks\<close> memo (lines 55 to 98), the \<^verbatim>\<open>extraJson\<close> memo (lines 47 to 53)
  and the form operations that write \<^verbatim>\<open>form.extra\<close> (lines 157 to 253).

  JavaScript strings are modelled as \<^typ>\<open>string\<close>. The built-ins whose result depends on
  Unicode tables or on the parsing and rounding of numbers (\<^verbatim>\<open>toLowerCase\<close>, \<^verbatim>\<open>trim\<close>,
  \<^verbatim>\<open>Number\<close>, \<^verbatim>\<open>new Date(v).getTime()\<close>, \<^verbatim>\<open>String\<close> of a number) are not code of the
  repository: they are taken as the fields of a \<open>platform\<close> record, and the theorems
  hold for every platform. \<^verbatim>\<open>includes\<close>, \<^verbatim>\<open>join\<close> and \<^verbatim>\<open>JSON.stringify\<close> of an object
  with string values are written out.
\<close>

subsection \<open>JavaScript numbers and their comparison\<close>

text \<open>
  The code only compares numbers (\<^verbatim>\<open><\<close> and \<^verbatim>\<open>>\<close>), it never computes with them. On finite
  doubles the comparison is the one of the rationals they denote; a comparison with
  \<^verbatim>\<open>NaN\<close> is false.
\<close>

datatype js_number = NaN | NegInfinity | Finite rat | PosInfinity

fun js_lt :: "js_number \<Rightarrow> js_number \<Rightarrow> bool" where
  "js_lt NaN b = False"
| "js_lt a NaN = False"
| "js_lt PosInfinity b = False"
| "js_lt a NegInfinity = False"
| "js_lt NegInfinity b = True"
| "js_lt a PosInfinity = True"
| "js_lt (Finite a) (Finite b) = (a < b)"

definition js_gt :: "js_number \<Rightarrow> js_number \<Rightarrow> bool" where
  "js_gt a b = js_lt b a"

text \<open>A JSON scalar that carries a price: the backend may send a number or a decimal string.\<close>

datatype json_scalar = JNum js_number | JStr string

record platform =
  Number_str :: "string \<Rightarrow> js_number"
  Date_getTime :: "string \<Rightarrow> js_number"
  String_num :: "js_number \<Rightarrow> string"
  toLowerCase :: "string \<Rightarrow> string"
  trim :: "string \<Rightarrow> string"

text \<open>
  What the theorems about a missing field use of \<^verbatim>\<open>toLowerCase\<close>: the lower case of a
  string is empty exactly when the string is. The built-in has this property, since it
  maps every character to one or more characters.
\<close>

definition lowers_nonempty :: "platform \<Rightarrow> bool" where
  "lowers_nonempty P = (\<forall>s. (toLowerCase P s = []) = (s = []))"

definition Number_of :: "platform \<Rightarrow> json_scalar \<Rightarrow> js_number" where
  "Number_of P v = (case v of JNum n \<Rightarrow> n | JStr s \<Rightarrow> Number_str P s)"

definition String_of :: "platform \<Rightarrow> json_scalar \<Rightarrow> string" where
  "String_of P v = (case v of JNum n \<Rightarrow> String_num P n | JStr s \<Rightarrow> s)"

subsection \<open>Strings\<close>

text \<open>\<^verbatim>\<open>String.prototype.includes\<close> is the contiguous-substring test.\<close>

definition includes_str :: "string \<Rightarrow> string \<Rightarrow> bool" where
  "includes_str base tm = sublist tm base"

text \<open>\<^verbatim>\<open>const q = (v) => (v || "").toString().toLowerCase()\<close>, on a string that may be
  \<^verbatim>\<open>null\<close> or \<^verbatim>\<open>undefined\<close> (\<open>None\<close>).\<close>

definition q :: "platform \<Rightarrow> string option \<Rightarrow> string" where
  "q P v = toLowerCase P (case v of None \<Rightarrow> [] | Some s \<Rightarrow> s)"

text \<open>\<^verbatim>\<open>const contains = (base, term) => q(base).includes(q(term))\<close>; the term is always a
  filter field, a string.\<close>

definition contains :: "platform \<Rightarrow> string option \<Rightarrow> string \<Rightarrow> bool" where
  "contains P base tm = includes_str (q P base) (q P (Some tm))"

fun join :: "string \<Rightarrow> string list \<Rightarrow> string" where
  "join sep [] = []"
| "join sep [x] = x"
| "join sep (x # y # ys) = x @ sep @ join sep (y # ys)"

subsection \<open>\<^verbatim>\<open>JSON.stringify\<close> of an object with string values\<close>

definition hex_digit :: "nat \<Rightarrow> char" where
  "hex_digit n = ''0123456789abcdef'' ! (n mod 16)"

text \<open>The escapes of \<^verbatim>\<open>QuoteJSONString\<close>: the double quote, the backslash, and the control
  characters below \<^verbatim>\<open>0x20\<close>.\<close>

definition json_escape :: "char \<Rightarrow> string" where
  "json_escape c =
     (if c = CHR 0x22 then [CHR 0x5C, CHR 0x22]
      else if c = CHR 0x5C then [CHR 0x5C, CHR 0x5C]
      else if c = CHR 0x08 then [CHR 0x5C, CHR ''b'']
      else if c = CHR 0x0C then [CHR 0x5C, CHR ''f'']
      else if c = CHR 0x0A then [CHR 0x5C, CHR ''n'']
      else if c = CHR 0x0D then [CHR 0x5C, CHR ''r'']
      else if c = CHR 0x09 then [CHR 0x5C, CHR ''t'']
      else if (of_char c :: nat) < 32
        then [CHR 0x5C, CHR ''u'', CHR ''0'', CHR ''0'',
              hex_digit ((of_char c :: nat) div 16), hex_digit (of_char c :: nat)]
      else [c])"

definition json_quote :: "string \<Rightarrow> string" where
  "json_quote s = [CHR 0x22] @ concat (map json_escape s) @ [CHR 0x22]"

text \<open>An object is the list of its own properties in enumeration order.\<close>

definition JSON_stringify :: "(string \<times> string) list \<Rightarrow> string" where
  "JSON_stringify obj =
     ''{'' @ join '','' (map (\<lambda>(k, v). json_quote k @ '':'' @ json_quote v) obj) @ ''}''"

subsection \<open>Works and filter criteria\<close>

text \<open>
  The read shape of a work. \<open>None\<close> is a field that is \<^verbatim>\<open>null\<close> or absent. The filter
  fields are the strings of the \<^verbatim>\<open>filters\<close> state (lines 14 to 27); they carry the prefix
  \<open>f_\<close> because the work has fields of the same names.
\<close>

record named =
  ref_id :: nat
  name :: string

record work =
  work_id :: nat
  title :: "string option"
  author :: "named option"
  circle :: "named option"
  summary :: "string option"
  purchase_event :: "named option"
  tags :: "string list option"
  extra :: "(string \<times> string) list option"
  price :: "json_scalar option"
  purchase_date :: "string option"
  is_r18 :: "bool option"

record filters =
  f_title :: string
  f_author :: string
  f_circle :: string
  f_summary :: string
  f_purchase_event :: string
  f_tags :: string
  f_extra :: string
  f_price_min :: string
  f_price_max :: string
  f_date_from :: string
  f_date_to :: string
  f_is_r18 :: string

definition initial_filters :: filters where
  "initial_filters =
     \<lparr> f_title = [], f_author = [], f_circle = [], f_summary = [], f_purchase_event = [],
       f_tags = [], f_extra = [], f_price_min = [], f_price_max = [], f_date_from = [],
       f_date_to = [], f_is_r18 = ''all'' \<rparr>"

subsection \<open>The filter, lines 55 to 98\<close>

text \<open>\<^verbatim>\<open>const dateVal = (v) => (v ? new Date(v).getTime() : null)\<close>\<close>

definition dateVal :: "platform \<Rightarrow> string option \<Rightarrow> js_number option" where
  "dateVal P v =
     (case v of None \<Rightarrow> None
      | Some s \<Rightarrow> if s \<noteq> [] then Some (Date_getTime P s) else None)"

definition minPrice :: "platform \<Rightarrow> filters \<Rightarrow> js_number option" where
  "minPrice P f = (if f_price_min f \<noteq> [] then Some (Number_str P (f_price_min f)) else None)"

definition maxPrice :: "platform \<Rightarrow> filters \<Rightarrow> js_number option" where
  "maxPrice P f = (if f_price_max f \<noteq> [] then Some (Number_str P (f_price_max f)) else None)"

definition fromDate :: "platform \<Rightarrow> filters \<Rightarrow> js_number option" where
  "fromDate P f = (if f_date_from f \<noteq> [] then dateVal P (Some (f_date_from f)) else None)"

definition toDate :: "platform \<Rightarrow> filters \<Rightarrow> js_number option" where
  "toDate P f = (if f_date_to f \<noteq> [] then dateVal P (Some (f_date_to f)) else None)"

text \<open>\<^verbatim>\<open>w.author?.name\<close>\<close>

definition opt_name :: "named option \<Rightarrow> string option" where
  "opt_name r = (case r of None \<Rightarrow> None | Some a \<Rightarrow> Some (name a))"

text \<open>\<^verbatim>\<open>Boolean(w.is_r18)\<close>\<close>

definition Boolean :: "bool option \<Rightarrow> bool" where
  "Boolean b = (case b of None \<Rightarrow> False | Some v \<Rightarrow> v)"

text \<open>The callback of \<^verbatim>\<open>works.filter\<close>, one branch for each \<^verbatim>\<open>return false\<close> in the order
  of the source.\<close>

definition keep :: "platform \<Rightarrow> filters \<Rightarrow> work \<Rightarrow> bool" where
  "keep P f w =
     (if f_title f \<noteq> [] \<and> \<not> contains P (title w) (f_title f) then False
      else if f_author f \<noteq> [] \<and> \<not> contains P (opt_name (author w)) (f_author f) then False
      else if f_circle f \<noteq> [] \<and> \<not> contains P (opt_name (circle w)) (f_circle f) then False
      else if f_summary f \<noteq> [] \<and> \<not> contains P (summary w) (f_summary f) then False
      else if f_purchase_event f \<noteq> []
              \<and> \<not> contains P (opt_name (purchase_event w)) (f_purchase_event f) then False
      else if f_tags f \<noteq> []
              \<and> \<not> list_ex (\<lambda>t. contains P (Some t) (f_tags f))
                     (case tags w of None \<Rightarrow> [] | Some ts \<Rightarrow> ts) then False
      else if f_extra f \<noteq> []
              \<and> \<not> contains P
                     (Some (JSON_stringify (case extra w of None \<Rightarrow> [] | Some e \<Rightarrow> e)))
                     (f_extra f) then False
      else if (case minPrice P f of None \<Rightarrow> False
               | Some m \<Rightarrow> (case price w of None \<Rightarrow> True
                            | Some p \<Rightarrow> js_lt (Number_of P p) m)) then False
      else if (case maxPrice P f of None \<Rightarrow> False
               | Some m \<Rightarrow> (case price w of None \<Rightarrow> True
                            | Some p \<Rightarrow> js_gt (Number_of P p) m)) then False
      else if (case fromDate P f of None \<Rightarrow> False
               | Some b \<Rightarrow> (case dateVal P (purchase_date w) of None \<Rightarrow> True
                            | Some d \<Rightarrow> js_lt d b)) then False
      else if (case toDate P f of None \<Rightarrow> False
               | Some b \<Rightarrow> (case dateVal P (purchase_date w) of None \<Rightarrow> True
                            | Some d \<Rightarrow> js_gt d b)) then False
      else if f_is_r18 f \<noteq> ''all''
              \<and> Boolean (is_r18 w) \<noteq> (f_is_r18 f = ''true'') then False
      else True)"

definition filteredWorks :: "platform \<Rightarrow> work list \<Rightarrow> filters \<Rightarrow> work list" where
  "filteredWorks P works f = filter (keep P f) works"

text \<open>The guard of a text criterion as the callback writes it.\<close>

definition passes_text :: "platform \<Rightarrow> string \<Rightarrow> string option \<Rightarrow> bool" where
  "passes_text P crit field = (\<not> (crit \<noteq> [] \<and> \<not> contains P field crit))"

subsection \<open>The criteria in the words of the specification\<close>

text \<open>
  Section 4.4 of the specification describes each criterion on its own; the definitions
  below follow its sentences and are compared with \<open>keep\<close> in the theorems.

  A text criterion is a case-insensitive substring match against the work's field; an
  empty criterion imposes no constraint and a missing field fails a non-empty one.
\<close>

definition text_criterion :: "platform \<Rightarrow> string \<Rightarrow> string option \<Rightarrow> bool" where
  "text_criterion P crit field =
     (crit = [] \<or>
      (case field of None \<Rightarrow> False
       | Some s \<Rightarrow> sublist (toLowerCase P crit) (toLowerCase P s)))"

text \<open>The tags criterion matches when any tag name of the work matches.\<close>

definition tags_criterion :: "platform \<Rightarrow> string \<Rightarrow> string list option \<Rightarrow> bool" where
  "tags_criterion P crit ts =
     (crit = [] \<or>
      (\<exists>t \<in> set (case ts of None \<Rightarrow> [] | Some l \<Rightarrow> l).
         sublist (toLowerCase P crit) (toLowerCase P t)))"

text \<open>The extra-text criterion matches against the serialised extra-attribute mapping, the
  empty mapping when the work has none.\<close>

definition extra_criterion :: "platform \<Rightarrow> string \<Rightarrow> (string \<times> string) list option \<Rightarrow> bool" where
  "extra_criterion P crit e =
     (crit = [] \<or>
      sublist (toLowerCase P crit)
        (toLowerCase P (JSON_stringify (case e of None \<Rightarrow> [] | Some l \<Rightarrow> l))))"

text \<open>Bounds are inclusive: a value passes unless it lies strictly outside; a missing value
  fails a bound that is set.\<close>

definition lower_bound :: "js_number option \<Rightarrow> js_number option \<Rightarrow> bool" where
  "lower_bound b v =
     (case b of None \<Rightarrow> True
      | Some m \<Rightarrow> (case v of None \<Rightarrow> False | Some x \<Rightarrow> \<not> js_lt x m))"

definition upper_bound :: "js_number option \<Rightarrow> js_number option \<Rightarrow> bool" where
  "upper_bound b v =
     (case b of None \<Rightarrow> True
      | Some m \<Rightarrow> (case v of None \<Rightarrow> False | Some x \<Rightarrow> \<not> js_lt m x))"

text \<open>The R-18 criterion is tri-state: \<^verbatim>\<open>all\<close> imposes nothing, \<^verbatim>\<open>true\<close> asks for the flag,
  the third value asks for its absence.\<close>

definition r18_criterion :: "string \<Rightarrow> bool option \<Rightarrow> bool" where
  "r18_criterion crit flag = (crit = ''all'' \<or> Boolean flag = (crit = ''true''))"

definition work_price :: "platform \<Rightarrow> work \<Rightarrow> js_number option" where
  "work_price P w = map_option (Number_of P) (price w)"

definition satisfies :: "platform \<Rightarrow> filters \<Rightarrow> work \<Rightarrow> bool" where
  "satisfies P f w =
     (text_criterion P (f_title f) (title w)
      \<and> text_criterion P (f_author f) (opt_name (author w))
      \<and> text_criterion P (f_circle f) (opt_name (circle w))
      \<and> text_criterion P (f_summary f) (summary w)
      \<and> text_criterion P (f_purchase_event f) (opt_name (purchase_event w))
      \<and> tags_criterion P (f_tags f) (tags w)
      \<and> extra_criterion P (f_extra f) (extra w)
      \<and> lower_bound (minPrice P f) (work_price P w)
      \<and> upper_bound (maxPrice P f) (work_price P w)
      \<and> lower_bound (fromDate P f) (dateVal P (purchase_date w))
      \<and> upper_bound (toDate P f) (dateVal P (purchase_date w))
      \<and> r18_criterion (f_is_r18 f) (is_r18 w))"

subsection \<open>The registration form and its extra-attribute rows\<close>

text \<open>
  A row object has the properties \<^verbatim>\<open>key\<close> and \<^verbatim>\<open>value\<close>; \<open>None\<close> is a property the
  object does not have. An element of the \<^verbatim>\<open>form.extra\<close> array is a row, the value
  \<^verbatim>\<open>undefined\<close>, or a hole (an index below the length at which the array has no element).
  The rows the form starts with, adds and loads are complete; \<^verbatim>\<open>updateExtra\<close> with an
  index beyond the array is what makes holes and rows with one property.
\<close>

record extra_row =
  row_key :: "string option"
  row_value :: "string option"

datatype element = Hole | Undefined | Row extra_row

definition emptyExtraRow :: element where
  "emptyExtraRow = Row \<lparr> row_key = Some [], row_value = Some [] \<rparr>"

text \<open>A chosen cover file is opaque to this logic.\<close>

type_synonym cover_file = nat

record form =
  form_title :: string
  form_author_name :: string
  form_circle_name :: string
  form_is_r18 :: bool
  form_summary :: string
  form_purchase_date :: string
  form_purchase_event_name :: string
  form_price :: string
  form_tags :: string
  form_extra :: "element list"
  form_cover :: "cover_file option"

text \<open>The literal that initialises the form (lines 29 to 41) and that \<^verbatim>\<open>submit\<close> and
  \<^verbatim>\<open>cancelEdit\<close> write again.\<close>

definition empty_form :: form where
  "empty_form =
     \<lparr> form_title = [], form_author_name = [], form_circle_name = [], form_is_r18 = False,
       form_summary = [], form_purchase_date = [], form_purchase_event_name = [],
       form_price = [], form_tags = [], form_extra = [emptyExtraRow], form_cover = None \<rparr>"

record app_state =
  view :: string
  editingId :: "nat option"
  form :: form

definition initial_state :: app_state where
  "initial_state = \<lparr> view = ''form'', editingId = None, form = empty_form \<rparr>"

text \<open>\<^verbatim>\<open>updateField\<close> writes the field named by the input that fired; the inputs wired to it
  are the nine below (the checkbox carries a boolean).\<close>

datatype field_input =
    Title string | Author_name string | Circle_name string | Is_r18 bool
  | Purchase_date string | Purchase_event_name string | Price string | Summary string
  | Tags string

fun updateField :: "field_input \<Rightarrow> form \<Rightarrow> form" where
  "updateField (Title v) f = f\<lparr>form_title := v\<rparr>"
| "updateField (Author_name v) f = f\<lparr>form_author_name := v\<rparr>"
| "updateField (Circle_name v) f = f\<lparr>form_circle_name := v\<rparr>"
| "updateField (Is_r18 b) f = f\<lparr>form_is_r18 := b\<rparr>"
| "updateField (Purchase_date v) f = f\<lparr>form_purchase_date := v\<rparr>"
| "updateField (Purchase_event_name v) f = f\<lparr>form_purchase_event_name := v\<rparr>"
| "updateField (Price v) f = f\<lparr>form_price := v\<rparr>"
| "updateField (Summary v) f = f\<lparr>form_summary := v\<rparr>"
| "updateField (Tags v) f = f\<lparr>form_tags := v\<rparr>"

text \<open>The file input: \<^verbatim>\<open>setForm((f) => ({ ...f, cover: e.target.files[0] }))\<close>.\<close>

definition setCover :: "cover_file option \<Rightarrow> form \<Rightarrow> form" where
  "setCover c f = f\<lparr>form_cover := c\<rparr>"

text \<open>The array spread \<^verbatim>\<open>[...f.extra]\<close> copies the elements by iteration, which reads a hole
  as \<^verbatim>\<open>undefined\<close>.\<close>

definition spread :: "element list \<Rightarrow> element list" where
  "spread xs = map (\<lambda>c. case c of Hole \<Rightarrow> Undefined | _ \<Rightarrow> c) xs"

text \<open>The object spread \<^verbatim>\<open>{ ...next[index] }\<close>: the properties of the row at the index, none
  when the element is \<^verbatim>\<open>undefined\<close> (also when the index is beyond the array).\<close>

definition spread_row :: "element list \<Rightarrow> nat \<Rightarrow> extra_row" where
  "spread_row next index =
     (if index < length next
      then (case next ! index of
              Row r \<Rightarrow> r
            | _ \<Rightarrow> \<lparr> row_key = None, row_value = None \<rparr>)
      else \<lparr> row_key = None, row_value = None \<rparr>)"

text \<open>\<^verbatim>\<open>updateExtra(index, key, value)\<close> is called with \<^verbatim>\<open>"key"\<close> or \<^verbatim>\<open>"value"\<close> as its
  second argument.\<close>

datatype row_field = KeyField | ValueField

definition set_row_field :: "row_field \<Rightarrow> string \<Rightarrow> extra_row \<Rightarrow> extra_row" where
  "set_row_field k v r =
     (case k of KeyField \<Rightarrow> r\<lparr>row_key := Some v\<rparr> | ValueField \<Rightarrow> r\<lparr>row_value := Some v\<rparr>)"

text \<open>The assignment \<^verbatim>\<open>next[index] = x\<close>: at an index of the array it replaces the element;
  beyond the array it stores the element and the array grows to \<open>index + 1\<close>, with holes
  between the old end and the index.\<close>

definition assign_index :: "element list \<Rightarrow> nat \<Rightarrow> element \<Rightarrow> element list" where
  "assign_index next index x =
     (if index < length next then next[index := x]
      else next @ replicate (index - length next) Hole @ [x])"

definition updateExtra :: "nat \<Rightarrow> row_field \<Rightarrow> string \<Rightarrow> form \<Rightarrow> form" where
  "updateExtra index k v f =
     (let next = spread (form_extra f);
          next = assign_index next index (Row (set_row_field k v (spread_row next index)))
      in f\<lparr>form_extra := next\<rparr>)"

definition addExtraRow :: "form \<Rightarrow> form" where
  "addExtraRow f = f\<lparr>form_extra := spread (form_extra f) @ [emptyExtraRow]\<rparr>"

text \<open>\<^verbatim>\<open>f.extra.filter((_, i) => i !== index)\<close>, then the fallback to one empty row.
  \<^verbatim>\<open>Array.prototype.filter\<close> does not visit holes.\<close>

definition removeExtraRow :: "nat \<Rightarrow> form \<Rightarrow> form" where
  "removeExtraRow index f =
     (let next = map fst (filter (\<lambda>(r, i). r \<noteq> Hole \<and> i \<noteq> index)
                            (zip (form_extra f) [0 ..< length (form_extra f)]))
      in f\<lparr>form_extra := (if next \<noteq> [] then next else [emptyExtraRow])\<rparr>)"

text \<open>
  \<^verbatim>\<open>submit\<close> sends the request and, once \<^verbatim>\<open>fetch\<close> has resolved, resets the form and the
  editing id; when \<^verbatim>\<open>fetch\<close> rejects the function is left before the reset.
\<close>

definition submit :: "bool \<Rightarrow> app_state \<Rightarrow> app_state" where
  "submit fetch_resolved s =
     (if fetch_resolved then s\<lparr>form := empty_form, editingId := None\<rparr> else s)"

definition or_empty :: "string option \<Rightarrow> string" where
  "or_empty v = (case v of None \<Rightarrow> [] | Some s \<Rightarrow> s)"

definition startEdit :: "platform \<Rightarrow> work \<Rightarrow> app_state \<Rightarrow> app_state" where
  "startEdit P work s =
     s\<lparr>editingId := Some (work_id work),
       form :=
         \<lparr> form_title = or_empty (title work),
           form_author_name = or_empty (opt_name (author work)),
           form_circle_name = or_empty (opt_name (circle work)),
           form_is_r18 = Boolean (is_r18 work),
           form_summary = or_empty (summary work),
           form_purchase_date = or_empty (purchase_date work),
           form_purchase_event_name = or_empty (opt_name (purchase_event work)),
           form_price = (case price work of None \<Rightarrow> [] | Some p \<Rightarrow> String_of P p),
           form_tags = join '','' (case tags work of None \<Rightarrow> [] | Some ts \<Rightarrow> ts),
           form_extra =
             (case extra work of
                None \<Rightarrow> [emptyExtraRow]
              | Some e \<Rightarrow>
                  if length e \<noteq> 0
                  then map (\<lambda>(k, v). Row \<lparr> row_key = Some k, row_value = Some v \<rparr>) e
                  else [emptyExtraRow]),
           form_cover = None \<rparr>,
       view := ''form''\<rparr>"

definition cancelEdit :: "app_state \<Rightarrow> app_state" where
  "cancelEdit s = s\<lparr>editingId := None, form := empty_form\<rparr>"

text \<open>The events that write the form, with any index for the two row events.\<close>

datatype event =
    UpdateField field_input
  | SetCover "cover_file option"
  | UpdateExtra nat row_field string
  | AddExtraRow
  | RemoveExtraRow nat
  | Submit bool
  | StartEdit work
  | CancelEdit

fun fire :: "platform \<Rightarrow> event \<Rightarrow> app_state \<Rightarrow> app_state" where
  "fire P (UpdateField i) s = s\<lparr>form := updateField i (form s)\<rparr>"
| "fire P (SetCover c) s = s\<lparr>form := setCover c (form s)\<rparr>"
| "fire P (UpdateExtra index k v) s = s\<lparr>form := updateExtra index k v (form s)\<rparr>"
| "fire P AddExtraRow s = s\<lparr>form := addExtraRow (form s)\<rparr>"
| "fire P (RemoveExtraRow index) s = s\<lparr>form := removeExtraRow index (form s)\<rparr>"
| "fire P (Submit ok) s = submit ok s"
| "fire P (StartEdit w) s = startEdit P w s"
| "fire P CancelEdit s = cancelEdit s"

fun run :: "platform \<Rightarrow> event list \<Rightarrow> app_state \<Rightarrow> app_state" where
  "run P [] s = s"
| "run P (e # es) s = run P es (fire P e s)"

subsection \<open>The extra-attribute mapping built from the rows, lines 47 to 53\<close>

text \<open>
  \<^verbatim>\<open>obj[k] = v\<close> on an object created by \<^verbatim>\<open>{}\<close>, for \<open>v\<close> a string or \<^verbatim>\<open>undefined\<close>
  (\<open>None\<close>). The object is the list of its own properties in the order of their creation
  (JavaScript enumerates array-index keys first; nothing below depends on the order). The
  assignment looks the key up along the prototype chain first: \<^verbatim>\<open>__proto__\<close> is an accessor
  of \<^verbatim>\<open>Object.prototype\<close> whose setter returns without effect when the value is neither an
  object nor \<^verbatim>\<open>null\<close>, so the assignment of a string to it creates no property. Every other
  key overwrites the own property of that name or creates one.
\<close>

type_synonym js_object = "(string \<times> string option) list"

definition set_property :: "string \<Rightarrow> string option \<Rightarrow> js_object \<Rightarrow> js_object" where
  "set_property k v obj = (if k = ''__proto__'' then obj else AList.update k v obj)"

text \<open>
  The body of the loop \<^verbatim>\<open>for (const row of form.extra)\<close>. The iteration reads a hole as
  \<^verbatim>\<open>undefined\<close>; \<^verbatim>\<open>row.key\<close> of \<^verbatim>\<open>undefined\<close> and \<^verbatim>\<open>.trim()\<close> of a missing key throw a
  \<^verbatim>\<open>TypeError\<close>.
\<close>

datatype js_error = TypeError

definition extraJson_step :: "platform \<Rightarrow> element \<Rightarrow> js_object \<Rightarrow> js_error + js_object" where
  "extraJson_step P x obj =
     (case x of
        Row row \<Rightarrow>
          (case row_key row of
             None \<Rightarrow> Inl TypeError
           | Some k \<Rightarrow>
               Inr (if trim P k \<noteq> [] then set_property (trim P k) (row_value row) obj
                    else obj))
      | _ \<Rightarrow> Inl TypeError)"

fun extraJson_loop :: "platform \<Rightarrow> element list \<Rightarrow> js_object \<Rightarrow> js_error + js_object" where
  "extraJson_loop P [] obj = Inr obj"
| "extraJson_loop P (x # xs) obj =
     (case extraJson_step P x obj of
        Inl e \<Rightarrow> Inl e
      | Inr obj' \<Rightarrow> extraJson_loop P xs obj')"

definition extraJson :: "platform \<Rightarrow> element list \<Rightarrow> js_error + js_object" where
  "extraJson P rows = extraJson_loop P rows []"

text \<open>A complete row, with both properties, as the form creates and loads them.\<close>

definition complete_row :: "string \<Rightarrow> string \<Rightarrow> element" where
  "complete_row k v = Row \<lparr> row_key = Some k, row_value = Some v \<rparr>"

text \<open>The value of the last of the complete rows \<open>kvs\<close> whose trimmed key is \<open>k\<close>, if there
  is such a row.\<close>

definition last_value :: "platform \<Rightarrow> string \<Rightarrow> (string \<times> string) list \<Rightarrow> string option" where
  "last_value P k kvs = map_option snd (find (\<lambda>(k', v). trim P k' = k) (rev kvs))"

subsection \<open>A platform for the examples\<close>

text \<open>
  \<^verbatim>\<open>toLowerCase\<close> and \<^verbatim>\<open>trim\<close> as they act on ASCII strings: the letters A to Z are
  folded, and the ASCII white space and line terminators are stripped at both ends.
\<close>

definition lower_char :: "char \<Rightarrow> char" where
  "lower_char c =
     (case map_of (zip ''ABCDEFGHIJKLMNOPQRSTUVWXYZ'' ''abcdefghijklmnopqrstuvwxyz'') c of
        None \<Rightarrow> c
      | Some l \<Rightarrow> l)"

definition ascii_lower :: "string \<Rightarrow> string" where
  "ascii_lower s = map lower_char s"

definition is_space :: "char \<Rightarrow> bool" where
  "is_space c = (c \<in> set [CHR 0x09, CHR 0x0A, CHR 0x0B, CHR 0x0C, CHR 0x0D, CHR 0x20])"

definition ascii_trim :: "string \<Rightarrow> string" where
  "ascii_trim s = rev (dropWhile is_space (rev (dropWhile is_space s)))"

text \<open>
  The values of the other built-ins at the strings the examples use: \<^verbatim>\<open>Number("500")\<close> is
  500, \<^verbatim>\<open>Number("1300")\<close> is 1300, and a date-only string is midnight UTC of that day in
  milliseconds since the epoch. Strings outside the tables are given \<open>NaN\<close>; the examples
  do not use them. The examples use ASCII strings only.
\<close>

definition sample_platform :: platform where
  "sample_platform =
     \<lparr> Number_str = (\<lambda>s. case map_of [(''500'', Finite 500), (''1200'', Finite 1200),
                                       (''1300'', Finite 1300)] s of
                            None \<Rightarrow> NaN | Some n \<Rightarrow> n),
       Date_getTime = (\<lambda>s. case map_of [(''2024-01-05'', Finite 1704412800000),
                                         (''2024-02-01'', Finite 1706745600000)] s of
                              None \<Rightarrow> NaN | Some n \<Rightarrow> n),
       String_num = (\<lambda>n. if n = Finite 1200 then ''1200'' else ''NaN''),
       toLowerCase = ascii_lower,
       trim = ascii_trim \<rparr>"

definition sample_work :: work where
  "sample_work =
     \<lparr> work_id = 1, title = Some ''Sample'',
       author = Some \<lparr> ref_id = 1, name = ''Taro'' \<rparr>, circle = None, summary = None,
       purchase_event = None, tags = Some [''comedy'', ''drama''],
       extra = Some [(''Pages'', ''24'')], price = Some (JNum (Finite 1200)),
       purchase_date = Some ''2024-01-05'', is_r18 = Some False \<rparr>"

text \<open>A work object with an id and no other field.\<close>

definition bare_work :: work where
  "bare_work =
     \<lparr> work_id = 2, title = None, author = None, circle = None, summary = None,
       purchase_event = None, tags = None, extra = None, price = None,
       purchase_date = None, is_r18 = None \<rparr>"

definition r18_work :: work where
  "r18_work =
     sample_work\<lparr>work_id := 3, purchase_date := Some ''2024-02-01'', is_r18 := Some True\<rparr>"

definition text_filters :: filters where
  "text_filters =
     initial_filters\<lparr>f_title := ''a'', f_author := ''a'', f_circle := ''a'', f_summary := ''a'',
       f_purchase_event := ''a'', f_date_from := ''2024-01-05'', f_date_to := ''2024-02-01''\<rparr>"

definition sample_events :: "event list" where
  "sample_events =
     [AddExtraRow, UpdateExtra 1 ValueField ''24'', UpdateField (Title ''Sample''),
      RemoveExtraRow 0, RemoveExtraRow 0, Submit False, StartEdit bare_work, CancelEdit,
      Submit True, StartEdit sample_work, RemoveExtraRow 0, UpdateExtra 3 KeyField ''Pages'',
      RemoveExtraRow 0]"

definition drama_filters :: filters where
  "drama_filters = initial_filters\<lparr>f_tags := ''DRA'', f_price_min := ''500''\<rparr>"

section \<open>Properties\<close>

subsection \<open>Evaluation of the definitions at concrete inputs\<close>

lemmas eval_defs =
  filteredWorks_def keep_def contains_def includes_str_def q_def ascii_lower_def lower_char_def
  opt_name_def Boolean_def minPrice_def maxPrice_def fromDate_def toDate_def dateVal_def
  Number_of_def JSON_stringify_def json_quote_def json_escape_def sample_platform_def
  sample_work_def bare_work_def r18_work_def initial_filters_def sublist_Cons_right js_gt_def

lemma lowers_nonempty_sample: "lowers_nonempty sample_platform"
  by (simp add: lowers_nonempty_def sample_platform_def ascii_lower_def)

subsection \<open>The callback is the conjunction of the criteria\<close>

lemma js_lt_irrefl [simp]: "\<not> js_lt x x"
  by (cases x) simp_all

lemma tags_guard:
  "(\<not> (crit \<noteq> [] \<and> \<not> list_ex (\<lambda>t. contains P (Some t) crit)
        (case ts of None \<Rightarrow> [] | Some l \<Rightarrow> l))) = tags_criterion P crit ts"
  by (simp add: tags_criterion_def list_ex_iff contains_def includes_str_def q_def)

lemma extra_guard:
  "(\<not> (crit \<noteq> []
        \<and> \<not> contains P (Some (JSON_stringify (case e of None \<Rightarrow> [] | Some l \<Rightarrow> l))) crit))
     = extra_criterion P crit e"
  by (simp add: extra_criterion_def contains_def includes_str_def q_def)

lemma min_guard:
  "(\<not> (case b of None \<Rightarrow> False
        | Some m \<Rightarrow> (case price w of None \<Rightarrow> True | Some p \<Rightarrow> js_lt (Number_of P p) m)))
     = lower_bound b (work_price P w)"
  by (simp add: lower_bound_def work_price_def split: option.splits)

lemma max_guard:
  "(\<not> (case b of None \<Rightarrow> False
        | Some m \<Rightarrow> (case price w of None \<Rightarrow> True | Some p \<Rightarrow> js_gt (Number_of P p) m)))
     = upper_bound b (work_price P w)"
  by (simp add: upper_bound_def work_price_def js_gt_def split: option.splits)

lemma from_guard:
  "(\<not> (case b of None \<Rightarrow> False
        | Some m \<Rightarrow> (case v of None \<Rightarrow> True | Some d \<Rightarrow> js_lt d m)))
     = lower_bound b v"
  by (simp add: lower_bound_def split: option.splits)

lemma to_guard:
  "(\<not> (case b of None \<Rightarrow> False
        | Some m \<Rightarrow> (case v of None \<Rightarrow> True | Some d \<Rightarrow> js_gt d m)))
     = upper_bound b v"
  by (simp add: upper_bound_def js_gt_def split: option.splits)

lemma r18_guard:
  "(\<not> (crit \<noteq> ''all'' \<and> Boolean flag \<noteq> (crit = ''true''))) = r18_criterion crit flag"
  by (auto simp add: r18_criterion_def)

lemma if_chain: "(if c then False else b) = (\<not> c \<and> b)"
  by simp

lemma if_last: "(if c then False else True) = (\<not> c)"
  by simp

text \<open>The chain of early returns as a conjunction, the text guards as the code writes
  them.\<close>

lemma keep_conj:
  "keep P f w =
     (passes_text P (f_title f) (title w)
      \<and> passes_text P (f_author f) (opt_name (author w))
      \<and> passes_text P (f_circle f) (opt_name (circle w))
      \<and> passes_text P (f_summary f) (summary w)
      \<and> passes_text P (f_purchase_event f) (opt_name (purchase_event w))
      \<and> tags_criterion P (f_tags f) (tags w)
      \<and> extra_criterion P (f_extra f) (extra w)
      \<and> lower_bound (minPrice P f) (work_price P w)
      \<and> upper_bound (maxPrice P f) (work_price P w)
      \<and> lower_bound (fromDate P f) (dateVal P (purchase_date w))
      \<and> upper_bound (toDate P f) (dateVal P (purchase_date w))
      \<and> r18_criterion (f_is_r18 f) (is_r18 w))"
proof -
  have last: "(r \<and> True) = r" for r
    by simp
  show ?thesis
    unfolding keep_def passes_text_def
    by (simp only: if_last if_chain extra_guard tags_guard r18_guard min_guard max_guard
        from_guard to_guard last)
qed

text \<open>A text guard of the code is the text criterion of the specification: a missing field
  is read as the empty string, which contains no non-empty lower-cased term.\<close>

lemma passes_text_criterion:
  assumes "lowers_nonempty P"
  shows "passes_text P crit field = text_criterion P crit field"
proof (cases "crit = []")
  case True
  then show ?thesis by (simp add: passes_text_def text_criterion_def)
next
  case False
  from assms have e: "toLowerCase P [] = []" and n: "toLowerCase P crit \<noteq> []"
    using False by (simp_all add: lowers_nonempty_def)
  show ?thesis
  proof (cases field)
    case None
    with False e n show ?thesis
      by (simp add: passes_text_def text_criterion_def contains_def includes_str_def q_def)
  next
    case (Some s)
    with False show ?thesis
      by (simp add: passes_text_def text_criterion_def contains_def includes_str_def q_def)
  qed
qed

lemma keep_satisfies: "lowers_nonempty P \<Longrightarrow> keep P f w = satisfies P f w"
  by (simp only: keep_conj satisfies_def passes_text_criterion)

subsection \<open>The result of the filter\<close>

text \<open>
  C1. For every list of works and every criteria configuration, the result of the filter
  is the ordered subset of the input works that satisfy all set criteria: it is the input
  with the works that fail a criterion struck out, so every returned work is an element of
  the input, the result is a subsequence of the input (same relative order), every
  returned work satisfies each criterion, and every input work that satisfies all of them
  is returned. (For every platform whose \<^verbatim>\<open>toLowerCase\<close> keeps non-empty strings
  non-empty, as the built-in does.)
\<close>

theorem filteredWorks_ordered_subset:
  "lowers_nonempty P \<Longrightarrow>
   filteredWorks P works f = filter (satisfies P f) works
   \<and> set (filteredWorks P works f) \<subseteq> set works
   \<and> subseq (filteredWorks P works f) works
   \<and> (\<forall>w \<in> set (filteredWorks P works f). satisfies P f w)
   \<and> (\<forall>w \<in> set works. satisfies P f w \<longrightarrow> w \<in> set (filteredWorks P works f))"
proof -
  assume ok: "lowers_nonempty P"
  have eq: "filteredWorks P works f = filter (satisfies P f) works"
    unfolding filteredWorks_def by (rule filter_cong) (simp_all add: keep_satisfies [OF ok])
  show ?thesis
    unfolding eq by auto
qed

theorem filteredWorks_ordered_subset_witness:
  "lowers_nonempty sample_platform
   \<and> filteredWorks sample_platform [bare_work, sample_work] drama_filters = [sample_work]
   \<and> satisfies sample_platform drama_filters sample_work
   \<and> \<not> satisfies sample_platform drama_filters bare_work
   \<and> subseq [sample_work] [bare_work, sample_work]"
proof -
  have ev: "filteredWorks sample_platform [bare_work, sample_work] drama_filters = [sample_work]"
    by (simp add: eval_defs drama_filters_def)
  have ne: "bare_work \<noteq> sample_work"
    by (simp add: bare_work_def sample_work_def)
  from filteredWorks_ordered_subset
         [where P = sample_platform and works = "[bare_work, sample_work]"
            and f = drama_filters, OF lowers_nonempty_sample]
  show ?thesis
    unfolding ev using ne lowers_nonempty_sample by auto
qed

text \<open>
  C2. For every list of works, filtering with no criteria set (every text criterion empty,
  no price or date bound, \<^verbatim>\<open>is_r18\<close> at \<^verbatim>\<open>all\<close>: the initial value of the \<^verbatim>\<open>filters\<close> state)
  returns the whole input list, in its order.
\<close>

theorem filteredWorks_no_criteria:
  "filteredWorks P works initial_filters = works"
  by (simp add: filteredWorks_def keep_def initial_filters_def minPrice_def maxPrice_def
      fromDate_def toDate_def)

theorem filteredWorks_no_criteria_witness:
  "filteredWorks sample_platform [sample_work, bare_work, sample_work] initial_filters
     = [sample_work, bare_work, sample_work]"
  by (rule filteredWorks_no_criteria)

subsection \<open>Each criterion on its own\<close>

text \<open>Resetting one field of the filters removes exactly the criterion of that field; on
  the list, a criterion filters the result of the other criteria.\<close>

lemmas bound_defs = minPrice_def maxPrice_def fromDate_def toDate_def

lemma passes_text_Nil [simp]: "passes_text P [] v"
  by (simp add: passes_text_def)

lemma tags_criterion_Nil [simp]: "tags_criterion P [] v"
  by (simp add: tags_criterion_def)

lemma extra_criterion_Nil [simp]: "extra_criterion P [] v"
  by (simp add: extra_criterion_def)

lemma lower_bound_None [simp]: "lower_bound None v"
  by (simp add: lower_bound_def)

lemma upper_bound_None [simp]: "upper_bound None v"
  by (simp add: upper_bound_def)

lemma r18_criterion_all [simp]: "r18_criterion ''all'' v"
  by (simp add: r18_criterion_def)

lemma keep_split_title:
  "keep P f w = (keep P (f\<lparr>f_title := []\<rparr>) w \<and> passes_text P (f_title f) (title w))"
  by (auto simp add: keep_conj bound_defs)

lemma keep_split_author:
  "keep P f w = (keep P (f\<lparr>f_author := []\<rparr>) w
                 \<and> passes_text P (f_author f) (opt_name (author w)))"
  by (auto simp add: keep_conj bound_defs)

lemma keep_split_circle:
  "keep P f w = (keep P (f\<lparr>f_circle := []\<rparr>) w
                 \<and> passes_text P (f_circle f) (opt_name (circle w)))"
  by (auto simp add: keep_conj bound_defs)

lemma keep_split_summary:
  "keep P f w = (keep P (f\<lparr>f_summary := []\<rparr>) w \<and> passes_text P (f_summary f) (summary w))"
  by (auto simp add: keep_conj bound_defs)

lemma keep_split_purchase_event:
  "keep P f w = (keep P (f\<lparr>f_purchase_event := []\<rparr>) w
                 \<and> passes_text P (f_purchase_event f) (opt_name (purchase_event w)))"
  by (auto simp add: keep_conj bound_defs)

lemma keep_split_tags:
  "keep P f w = (keep P (f\<lparr>f_tags := []\<rparr>) w \<and> tags_criterion P (f_tags f) (tags w))"
  by (auto simp add: keep_conj bound_defs)

lemma keep_split_extra:
  "keep P f w = (keep P (f\<lparr>f_extra := []\<rparr>) w \<and> extra_criterion P (f_extra f) (extra w))"
  by (auto simp add: keep_conj bound_defs)

lemma keep_split_price_min:
  "keep P f w = (keep P (f\<lparr>f_price_min := []\<rparr>) w
                 \<and> lower_bound (minPrice P f) (work_price P w))"
  by (auto simp add: keep_conj bound_defs)

lemma keep_split_price_max:
  "keep P f w = (keep P (f\<lparr>f_price_max := []\<rparr>) w
                 \<and> upper_bound (maxPrice P f) (work_price P w))"
  by (auto simp add: keep_conj bound_defs)

lemma keep_split_date_from:
  "keep P f w = (keep P (f\<lparr>f_date_from := []\<rparr>) w
                 \<and> lower_bound (fromDate P f) (dateVal P (purchase_date w)))"
  by (auto simp add: keep_conj bound_defs)

lemma keep_split_date_to:
  "keep P f w = (keep P (f\<lparr>f_date_to := []\<rparr>) w
                 \<and> upper_bound (toDate P f) (dateVal P (purchase_date w)))"
  by (auto simp add: keep_conj bound_defs)

lemma keep_split_is_r18:
  "keep P f w = (keep P (f\<lparr>f_is_r18 := ''all''\<rparr>) w \<and> r18_criterion (f_is_r18 f) (is_r18 w))"
  by (auto simp add: keep_conj bound_defs)

lemma not_kept_not_returned: "\<not> keep P f w \<Longrightarrow> w \<notin> set (filteredWorks P works f)"
  by (simp add: filteredWorks_def)

lemma kept_alike:
  "keep P f w = keep P f' w \<Longrightarrow>
   (w \<in> set (filteredWorks P works f)) = (w \<in> set (filteredWorks P works f'))"
  by (simp add: filteredWorks_def)

lemma filteredWorks_split:
  assumes "\<And>w. keep P f w = (keep P f' w \<and> c w)"
  shows "filteredWorks P works f = filter c (filteredWorks P works f')"
proof -
  have "filter (keep P f) works = filter (\<lambda>w. keep P f' w \<and> c w) works"
    by (rule filter_cong) (simp_all add: assms)
  then show ?thesis
    by (simp add: filteredWorks_def)
qed

text \<open>
  C3. The price bounds are inclusive and a missing price fails a set bound. When
  \<^verbatim>\<open>price_min\<close> is set, a work with no price is rejected by the callback and is not in the
  result of the filter, whatever the list; so is a work whose price is strictly below the
  bound; a work priced exactly at the bound is not excluded by the bound (it is kept, and
  is in the result, exactly when it is without the bound); and the result is the result
  without the bound, restricted to the works that have a price not strictly below it.
  Symmetrically for \<^verbatim>\<open>price_max\<close> and prices strictly above it.
\<close>

theorem price_bounds_inclusive:
  "(f_price_min f \<noteq> [] \<longrightarrow>
      (price w = None \<longrightarrow> \<not> keep P f w \<and> w \<notin> set (filteredWorks P works f))
    \<and> (\<forall>p. price w = Some p \<and> js_lt (Number_of P p) (Number_str P (f_price_min f))
           \<longrightarrow> \<not> keep P f w \<and> w \<notin> set (filteredWorks P works f))
    \<and> (\<forall>p. price w = Some p \<and> Number_of P p = Number_str P (f_price_min f)
           \<longrightarrow> keep P f w = keep P (f\<lparr>f_price_min := []\<rparr>) w
               \<and> (w \<in> set (filteredWorks P works f))
                 = (w \<in> set (filteredWorks P works (f\<lparr>f_price_min := []\<rparr>))))
    \<and> filteredWorks P works f
        = filter (\<lambda>v. \<exists>p. price v = Some p
                          \<and> \<not> js_lt (Number_of P p) (Number_str P (f_price_min f)))
            (filteredWorks P works (f\<lparr>f_price_min := []\<rparr>)))
   \<and> (f_price_max f \<noteq> [] \<longrightarrow>
      (price w = None \<longrightarrow> \<not> keep P f w \<and> w \<notin> set (filteredWorks P works f))
    \<and> (\<forall>p. price w = Some p \<and> js_gt (Number_of P p) (Number_str P (f_price_max f))
           \<longrightarrow> \<not> keep P f w \<and> w \<notin> set (filteredWorks P works f))
    \<and> (\<forall>p. price w = Some p \<and> Number_of P p = Number_str P (f_price_max f)
           \<longrightarrow> keep P f w = keep P (f\<lparr>f_price_max := []\<rparr>) w
               \<and> (w \<in> set (filteredWorks P works f))
                 = (w \<in> set (filteredWorks P works (f\<lparr>f_price_max := []\<rparr>))))
    \<and> filteredWorks P works f
        = filter (\<lambda>v. \<exists>p. price v = Some p
                          \<and> \<not> js_gt (Number_of P p) (Number_str P (f_price_max f)))
            (filteredWorks P works (f\<lparr>f_price_max := []\<rparr>)))"
proof -
  have a: "lower_bound (minPrice P f) (work_price P v)
             = (\<exists>p. price v = Some p
                    \<and> \<not> js_lt (Number_of P p) (Number_str P (f_price_min f)))"
    if "f_price_min f \<noteq> []" for v
    using that
    by (simp add: lower_bound_def minPrice_def work_price_def split: option.splits)
  have b: "upper_bound (maxPrice P f) (work_price P v)
             = (\<exists>p. price v = Some p
                    \<and> \<not> js_gt (Number_of P p) (Number_str P (f_price_max f)))"
    if "f_price_max f \<noteq> []" for v
    using that
    by (simp add: upper_bound_def maxPrice_def work_price_def js_gt_def split: option.splits)
  have lo: "keep P f v = (keep P (f\<lparr>f_price_min := []\<rparr>) v
              \<and> (\<exists>p. price v = Some p
                     \<and> \<not> js_lt (Number_of P p) (Number_str P (f_price_min f))))"
    if "f_price_min f \<noteq> []" for v
    using keep_split_price_min [of P f v] a [OF that] by simp
  have hi: "keep P f v = (keep P (f\<lparr>f_price_max := []\<rparr>) v
              \<and> (\<exists>p. price v = Some p
                     \<and> \<not> js_gt (Number_of P p) (Number_str P (f_price_max f))))"
    if "f_price_max f \<noteq> []" for v
    using keep_split_price_max [of P f v] b [OF that] by simp
  have min_part: "(price w = None \<longrightarrow> \<not> keep P f w \<and> w \<notin> set (filteredWorks P works f))
    \<and> (\<forall>p. price w = Some p \<and> js_lt (Number_of P p) (Number_str P (f_price_min f))
           \<longrightarrow> \<not> keep P f w \<and> w \<notin> set (filteredWorks P works f))
    \<and> (\<forall>p. price w = Some p \<and> Number_of P p = Number_str P (f_price_min f)
           \<longrightarrow> keep P f w = keep P (f\<lparr>f_price_min := []\<rparr>) w
               \<and> (w \<in> set (filteredWorks P works f))
                 = (w \<in> set (filteredWorks P works (f\<lparr>f_price_min := []\<rparr>))))
    \<and> filteredWorks P works f
        = filter (\<lambda>v. \<exists>p. price v = Some p
                          \<and> \<not> js_lt (Number_of P p) (Number_str P (f_price_min f)))
            (filteredWorks P works (f\<lparr>f_price_min := []\<rparr>))"
    if m: "f_price_min f \<noteq> []"
  proof (intro conjI impI allI)
    assume "price w = None"
    with lo [OF m, of w] show "\<not> keep P f w" by simp
    then show "w \<notin> set (filteredWorks P works f)" by (rule not_kept_not_returned)
  next
    fix p
    assume "price w = Some p \<and> js_lt (Number_of P p) (Number_str P (f_price_min f))"
    with lo [OF m, of w] show "\<not> keep P f w" by simp
    then show "w \<notin> set (filteredWorks P works f)" by (rule not_kept_not_returned)
  next
    fix p
    assume "price w = Some p \<and> Number_of P p = Number_str P (f_price_min f)"
    with lo [OF m, of w] show same: "keep P f w = keep P (f\<lparr>f_price_min := []\<rparr>) w" by simp
    then show "(w \<in> set (filteredWorks P works f))
                 = (w \<in> set (filteredWorks P works (f\<lparr>f_price_min := []\<rparr>)))"
      by (rule kept_alike)
  next
    show "filteredWorks P works f
        = filter (\<lambda>v. \<exists>p. price v = Some p
                          \<and> \<not> js_lt (Number_of P p) (Number_str P (f_price_min f)))
            (filteredWorks P works (f\<lparr>f_price_min := []\<rparr>))"
      by (rule filteredWorks_split) (rule lo [OF m])
  qed
  have max_part: "(price w = None \<longrightarrow> \<not> keep P f w \<and> w \<notin> set (filteredWorks P works f))
    \<and> (\<forall>p. price w = Some p \<and> js_gt (Number_of P p) (Number_str P (f_price_max f))
           \<longrightarrow> \<not> keep P f w \<and> w \<notin> set (filteredWorks P works f))
    \<and> (\<forall>p. price w = Some p \<and> Number_of P p = Number_str P (f_price_max f)
           \<longrightarrow> keep P f w = keep P (f\<lparr>f_price_max := []\<rparr>) w
               \<and> (w \<in> set (filteredWorks P works f))
                 = (w \<in> set (filteredWorks P works (f\<lparr>f_price_max := []\<rparr>))))
    \<and> filteredWorks P works f
        = filter (\<lambda>v. \<exists>p. price v = Some p
                          \<and> \<not> js_gt (Number_of P p) (Number_str P (f_price_max f)))
            (filteredWorks P works (f\<lparr>f_price_max := []\<rparr>))"
    if m: "f_price_max f \<noteq> []"
  proof (intro conjI impI allI)
    assume "price w = None"
    with hi [OF m, of w] show "\<not> keep P f w" by simp
    then show "w \<notin> set (filteredWorks P works f)" by (rule not_kept_not_returned)
  next
    fix p
    assume "price w = Some p \<and> js_gt (Number_of P p) (Number_str P (f_price_max f))"
    with hi [OF m, of w] show "\<not> keep P f w" by simp
    then show "w \<notin> set (filteredWorks P works f)" by (rule not_kept_not_returned)
  next
    fix p
    assume "price w = Some p \<and> Number_of P p = Number_str P (f_price_max f)"
    with hi [OF m, of w] show same: "keep P f w = keep P (f\<lparr>f_price_max := []\<rparr>) w"
      by (simp add: js_gt_def)
    then show "(w \<in> set (filteredWorks P works f))
                 = (w \<in> set (filteredWorks P works (f\<lparr>f_price_max := []\<rparr>)))"
      by (rule kept_alike)
  next
    show "filteredWorks P works f
        = filter (\<lambda>v. \<exists>p. price v = Some p
                          \<and> \<not> js_gt (Number_of P p) (Number_str P (f_price_max f)))
            (filteredWorks P works (f\<lparr>f_price_max := []\<rparr>))"
      by (rule filteredWorks_split) (rule hi [OF m])
  qed
  from min_part max_part show ?thesis
    by blast
qed

theorem price_bounds_inclusive_witness:
  "\<not> keep sample_platform (initial_filters\<lparr>f_price_min := ''500''\<rparr>) bare_work
   \<and> bare_work \<notin> set (filteredWorks sample_platform [bare_work, sample_work]
                          (initial_filters\<lparr>f_price_min := ''500''\<rparr>))
   \<and> sample_work \<notin> set (filteredWorks sample_platform [bare_work, sample_work]
                            (initial_filters\<lparr>f_price_min := ''1300''\<rparr>))
   \<and> sample_work \<in> set (filteredWorks sample_platform [bare_work, sample_work]
                            (initial_filters\<lparr>f_price_min := ''1200''\<rparr>))
   \<and> filteredWorks sample_platform [bare_work, sample_work]
        (initial_filters\<lparr>f_price_min := ''1200''\<rparr>) = [sample_work]
   \<and> bare_work \<notin> set (filteredWorks sample_platform [bare_work, sample_work]
                          (initial_filters\<lparr>f_price_max := ''1300''\<rparr>))
   \<and> sample_work \<notin> set (filteredWorks sample_platform [bare_work, sample_work]
                            (initial_filters\<lparr>f_price_max := ''500''\<rparr>))
   \<and> sample_work \<in> set (filteredWorks sample_platform [bare_work, sample_work]
                            (initial_filters\<lparr>f_price_max := ''1200''\<rparr>))
   \<and> filteredWorks sample_platform [bare_work, sample_work]
        (initial_filters\<lparr>f_price_max := ''1200''\<rparr>) = [sample_work]"
proof -
  let ?ws = "[bare_work, sample_work]"
  have none: "price bare_work = None"
    by (simp add: bare_work_def)
  have some: "price sample_work = Some (JNum (Finite 1200))"
    by (simp add: sample_work_def)
  have below: "js_lt (Number_of sample_platform (JNum (Finite 1200)))
                 (Number_str sample_platform ''1300'')"
    by (simp add: Number_of_def sample_platform_def)
  have above: "js_gt (Number_of sample_platform (JNum (Finite 1200)))
                 (Number_str sample_platform ''500'')"
    by (simp add: Number_of_def sample_platform_def js_gt_def)
  have equal: "Number_of sample_platform (JNum (Finite 1200)) = Number_str sample_platform ''1200''"
    by (simp add: Number_of_def sample_platform_def)
  have reset: "initial_filters\<lparr>f_price_min := []\<rparr> = initial_filters"
    "initial_filters\<lparr>f_price_max := []\<rparr> = initial_filters"
    by (simp_all add: initial_filters_def)
  have proj [simp]: "f_price_min initial_filters = []" "f_price_max initial_filters = []"
    by (simp_all add: initial_filters_def)
  have all0: "filteredWorks sample_platform ?ws initial_filters = ?ws"
    by (simp add: eval_defs)
  note min500 = price_bounds_inclusive
      [where f = "initial_filters\<lparr>f_price_min := ''500''\<rparr>" and w = bare_work
         and P = sample_platform and works = ?ws]
  note min1300 = price_bounds_inclusive
      [where f = "initial_filters\<lparr>f_price_min := ''1300''\<rparr>" and w = sample_work
         and P = sample_platform and works = ?ws]
  note min1200 = price_bounds_inclusive
      [where f = "initial_filters\<lparr>f_price_min := ''1200''\<rparr>" and w = sample_work
         and P = sample_platform and works = ?ws]
  note max1300 = price_bounds_inclusive
      [where f = "initial_filters\<lparr>f_price_max := ''1300''\<rparr>" and w = bare_work
         and P = sample_platform and works = ?ws]
  note max500 = price_bounds_inclusive
      [where f = "initial_filters\<lparr>f_price_max := ''500''\<rparr>" and w = sample_work
         and P = sample_platform and works = ?ws]
  note max1200 = price_bounds_inclusive
      [where f = "initial_filters\<lparr>f_price_max := ''1200''\<rparr>" and w = sample_work
         and P = sample_platform and works = ?ws]
  have a: "\<not> keep sample_platform (initial_filters\<lparr>f_price_min := ''500''\<rparr>) bare_work"
    "bare_work \<notin> set (filteredWorks sample_platform ?ws (initial_filters\<lparr>f_price_min := ''500''\<rparr>))"
    using min500 none by simp_all
  have b: "sample_work \<notin> set (filteredWorks sample_platform ?ws
                                 (initial_filters\<lparr>f_price_min := ''1300''\<rparr>))"
    using min1300 some below by simp
  have c: "sample_work \<in> set (filteredWorks sample_platform ?ws
                                 (initial_filters\<lparr>f_price_min := ''1200''\<rparr>))"
  proof -
    have nz: "f_price_min (initial_filters\<lparr>f_price_min := ''1200''\<rparr>) \<noteq> []"
      by simp
    from min1200 [THEN conjunct1, rule_format, OF nz, THEN conjunct2, THEN conjunct2,
                  THEN conjunct1, rule_format, of "JNum (Finite 1200)"] some equal
    have "(sample_work \<in> set (filteredWorks sample_platform ?ws
                                 (initial_filters\<lparr>f_price_min := ''1200''\<rparr>)))
          = (sample_work \<in> set (filteredWorks sample_platform ?ws
                                 (initial_filters\<lparr>f_price_min := []\<rparr>)))"
      by simp
    then show ?thesis
      by (simp add: reset all0)
  qed
  have c': "filteredWorks sample_platform ?ws (initial_filters\<lparr>f_price_min := ''1200''\<rparr>)
              = [sample_work]"
    by (simp add: eval_defs)
  have d: "bare_work \<notin> set (filteredWorks sample_platform ?ws
                               (initial_filters\<lparr>f_price_max := ''1300''\<rparr>))"
    using max1300 none by simp
  have e: "sample_work \<notin> set (filteredWorks sample_platform ?ws
                                 (initial_filters\<lparr>f_price_max := ''500''\<rparr>))"
    using max500 some above by simp
  have f: "sample_work \<in> set (filteredWorks sample_platform ?ws
                                 (initial_filters\<lparr>f_price_max := ''1200''\<rparr>))"
  proof -
    have nz: "f_price_max (initial_filters\<lparr>f_price_max := ''1200''\<rparr>) \<noteq> []"
      by simp
    from max1200 [THEN conjunct2, rule_format, OF nz, THEN conjunct2, THEN conjunct2,
                  THEN conjunct1, rule_format, of "JNum (Finite 1200)"] some equal
    have "(sample_work \<in> set (filteredWorks sample_platform ?ws
                                 (initial_filters\<lparr>f_price_max := ''1200''\<rparr>)))
          = (sample_work \<in> set (filteredWorks sample_platform ?ws
                                 (initial_filters\<lparr>f_price_max := []\<rparr>)))"
      by simp
    then show ?thesis
      by (simp add: reset all0)
  qed
  have f': "filteredWorks sample_platform ?ws (initial_filters\<lparr>f_price_max := ''1200''\<rparr>)
              = [sample_work]"
    by (simp add: eval_defs)
  from a b c c' d e f f' show ?thesis
    by (intro conjI)
qed

text \<open>
  C4. For a non-empty tags criterion, a work passes exactly when at least one of its tag
  names contains the criterion as a case-insensitive substring; the criterion combines by
  conjunction with the other criteria, on the callback and on the result list; a work whose
  tag list is empty or missing fails and is not in the result.
\<close>

theorem tags_any_match:
  "f_tags f \<noteq> [] \<longrightarrow>
     (keep P f w \<longleftrightarrow>
        keep P (f\<lparr>f_tags := []\<rparr>) w
        \<and> (\<exists>t \<in> set (case tags w of None \<Rightarrow> [] | Some ts \<Rightarrow> ts).
              sublist (toLowerCase P (f_tags f)) (toLowerCase P t)))
     \<and> (tags w = None \<or> tags w = Some []
          \<longrightarrow> \<not> keep P f w \<and> w \<notin> set (filteredWorks P works f))
     \<and> filteredWorks P works f
         = filter (\<lambda>v. \<exists>t \<in> set (case tags v of None \<Rightarrow> [] | Some ts \<Rightarrow> ts).
                          sublist (toLowerCase P (f_tags f)) (toLowerCase P t))
             (filteredWorks P works (f\<lparr>f_tags := []\<rparr>))"
proof
  assume m: "f_tags f \<noteq> []"
  have split: "keep P f v = (keep P (f\<lparr>f_tags := []\<rparr>) v
                 \<and> (\<exists>t \<in> set (case tags v of None \<Rightarrow> [] | Some ts \<Rightarrow> ts).
                       sublist (toLowerCase P (f_tags f)) (toLowerCase P t)))" for v
    using keep_split_tags [of P f v] m by (simp add: tags_criterion_def)
  have none: "\<not> keep P f w" if "tags w = None \<or> tags w = Some []"
    using split [of w] that by auto
  have lst: "filteredWorks P works f
         = filter (\<lambda>v. \<exists>t \<in> set (case tags v of None \<Rightarrow> [] | Some ts \<Rightarrow> ts).
                          sublist (toLowerCase P (f_tags f)) (toLowerCase P t))
             (filteredWorks P works (f\<lparr>f_tags := []\<rparr>))"
    by (rule filteredWorks_split) (rule split)
  from split [of w] none lst
  show "(keep P f w \<longleftrightarrow>
        keep P (f\<lparr>f_tags := []\<rparr>) w
        \<and> (\<exists>t \<in> set (case tags w of None \<Rightarrow> [] | Some ts \<Rightarrow> ts).
              sublist (toLowerCase P (f_tags f)) (toLowerCase P t)))
     \<and> (tags w = None \<or> tags w = Some []
          \<longrightarrow> \<not> keep P f w \<and> w \<notin> set (filteredWorks P works f))
     \<and> filteredWorks P works f
         = filter (\<lambda>v. \<exists>t \<in> set (case tags v of None \<Rightarrow> [] | Some ts \<Rightarrow> ts).
                          sublist (toLowerCase P (f_tags f)) (toLowerCase P t))
             (filteredWorks P works (f\<lparr>f_tags := []\<rparr>))"
    using not_kept_not_returned [of P f w works] by blast
qed

theorem tags_any_match_witness:
  "keep sample_platform (initial_filters\<lparr>f_tags := ''DRA''\<rparr>) sample_work
   \<and> \<not> keep sample_platform (initial_filters\<lparr>f_tags := ''xyz''\<rparr>) sample_work
   \<and> \<not> keep sample_platform (initial_filters\<lparr>f_tags := ''DRA''\<rparr>) bare_work
   \<and> bare_work \<notin> set (filteredWorks sample_platform [bare_work, sample_work]
                          (initial_filters\<lparr>f_tags := ''DRA''\<rparr>))
   \<and> \<not> keep sample_platform (initial_filters\<lparr>f_tags := ''DRA''\<rparr>) (sample_work\<lparr>tags := Some []\<rparr>)"
proof -
  have low: "toLowerCase sample_platform = ascii_lower"
    by (simp add: sample_platform_def)
  have base: "keep sample_platform (initial_filters\<lparr>f_tags := []\<rparr>) sample_work"
    by (simp add: eval_defs)
  have hit: "\<exists>t \<in> set (case tags sample_work of None \<Rightarrow> [] | Some ts \<Rightarrow> ts).
               sublist (toLowerCase sample_platform ''DRA'') (toLowerCase sample_platform t)"
    by (simp add: low sample_work_def ascii_lower_def lower_char_def sublist_Cons_right)
  have miss: "\<not> (\<exists>t \<in> set (case tags sample_work of None \<Rightarrow> [] | Some ts \<Rightarrow> ts).
               sublist (toLowerCase sample_platform ''xyz'') (toLowerCase sample_platform t))"
    by (simp add: low sample_work_def ascii_lower_def lower_char_def sublist_Cons_right)
  have a: "keep sample_platform (initial_filters\<lparr>f_tags := ''DRA''\<rparr>) sample_work"
    using tags_any_match [where f = "initial_filters\<lparr>f_tags := ''DRA''\<rparr>"
                            and P = sample_platform and w = sample_work and works = "[]"]
          base hit
    by simp
  have b: "\<not> keep sample_platform (initial_filters\<lparr>f_tags := ''xyz''\<rparr>) sample_work"
    using tags_any_match [where f = "initial_filters\<lparr>f_tags := ''xyz''\<rparr>"
                            and P = sample_platform and w = sample_work and works = "[]"]
          miss
    by simp
  have c: "\<not> keep sample_platform (initial_filters\<lparr>f_tags := ''DRA''\<rparr>) bare_work"
    "bare_work \<notin> set (filteredWorks sample_platform [bare_work, sample_work]
                          (initial_filters\<lparr>f_tags := ''DRA''\<rparr>))"
    using tags_any_match [where f = "initial_filters\<lparr>f_tags := ''DRA''\<rparr>"
                            and P = sample_platform and w = bare_work
                            and works = "[bare_work, sample_work]"]
    by (simp_all add: bare_work_def)
  have d: "\<not> keep sample_platform (initial_filters\<lparr>f_tags := ''DRA''\<rparr>)
               (sample_work\<lparr>tags := Some []\<rparr>)"
    using tags_any_match [where f = "initial_filters\<lparr>f_tags := ''DRA''\<rparr>"
                            and P = sample_platform and w = "sample_work\<lparr>tags := Some []\<rparr>"
                            and works = "[]"]
    by simp
  from a b c d show ?thesis by (intro conjI)
qed

text \<open>
  C5. Missing values fail the criteria that are set. A work whose title, author, circle,
  summary or event is absent is rejected under a non-empty criterion on that field and is
  not in the result of the filter, whatever the list (for every platform whose
  \<^verbatim>\<open>toLowerCase\<close> keeps non-empty strings non-empty, as the built-in does). A work with no
  purchase date is rejected under a set \<^verbatim>\<open>date_from\<close> and under a set \<^verbatim>\<open>date_to\<close> and is
  not in the result. The date bounds are inclusive and compare instants (the \<^verbatim>\<open>getTime\<close>
  values): a date strictly before \<^verbatim>\<open>date_from\<close> or strictly after \<^verbatim>\<open>date_to\<close> is excluded, a
  date exactly at a bound is not excluded by it, and the result is the result without the
  bound, restricted to the works that have a date not strictly outside it.
\<close>

theorem missing_values_fail:
  "(lowers_nonempty P \<longrightarrow>
      (f_title f \<noteq> [] \<and> title w = None
         \<longrightarrow> \<not> keep P f w \<and> w \<notin> set (filteredWorks P works f))
    \<and> (f_author f \<noteq> [] \<and> author w = None
         \<longrightarrow> \<not> keep P f w \<and> w \<notin> set (filteredWorks P works f))
    \<and> (f_circle f \<noteq> [] \<and> circle w = None
         \<longrightarrow> \<not> keep P f w \<and> w \<notin> set (filteredWorks P works f))
    \<and> (f_summary f \<noteq> [] \<and> summary w = None
         \<longrightarrow> \<not> keep P f w \<and> w \<notin> set (filteredWorks P works f))
    \<and> (f_purchase_event f \<noteq> [] \<and> purchase_event w = None
         \<longrightarrow> \<not> keep P f w \<and> w \<notin> set (filteredWorks P works f)))
   \<and> (f_date_from f \<noteq> [] \<longrightarrow>
        (purchase_date w = None \<or> purchase_date w = Some []
           \<longrightarrow> \<not> keep P f w \<and> w \<notin> set (filteredWorks P works f))
      \<and> (\<forall>d. purchase_date w = Some d \<and> d \<noteq> []
               \<and> js_lt (Date_getTime P d) (Date_getTime P (f_date_from f))
           \<longrightarrow> \<not> keep P f w \<and> w \<notin> set (filteredWorks P works f))
      \<and> (\<forall>d. purchase_date w = Some d \<and> d \<noteq> []
               \<and> Date_getTime P d = Date_getTime P (f_date_from f)
           \<longrightarrow> keep P f w = keep P (f\<lparr>f_date_from := []\<rparr>) w
               \<and> (w \<in> set (filteredWorks P works f))
                 = (w \<in> set (filteredWorks P works (f\<lparr>f_date_from := []\<rparr>))))
      \<and> filteredWorks P works f
          = filter (\<lambda>v. \<exists>d. purchase_date v = Some d \<and> d \<noteq> []
                            \<and> \<not> js_lt (Date_getTime P d) (Date_getTime P (f_date_from f)))
              (filteredWorks P works (f\<lparr>f_date_from := []\<rparr>)))
   \<and> (f_date_to f \<noteq> [] \<longrightarrow>
        (purchase_date w = None \<or> purchase_date w = Some []
           \<longrightarrow> \<not> keep P f w \<and> w \<notin> set (filteredWorks P works f))
      \<and> (\<forall>d. purchase_date w = Some d \<and> d \<noteq> []
               \<and> js_gt (Date_getTime P d) (Date_getTime P (f_date_to f))
           \<longrightarrow> \<not> keep P f w \<and> w \<notin> set (filteredWorks P works f))
      \<and> (\<forall>d. purchase_date w = Some d \<and> d \<noteq> []
               \<and> Date_getTime P d = Date_getTime P (f_date_to f)
           \<longrightarrow> keep P f w = keep P (f\<lparr>f_date_to := []\<rparr>) w
               \<and> (w \<in> set (filteredWorks P works f))
                 = (w \<in> set (filteredWorks P works (f\<lparr>f_date_to := []\<rparr>))))
      \<and> filteredWorks P works f
          = filter (\<lambda>v. \<exists>d. purchase_date v = Some d \<and> d \<noteq> []
                            \<and> \<not> js_gt (Date_getTime P d) (Date_getTime P (f_date_to f)))
              (filteredWorks P works (f\<lparr>f_date_to := []\<rparr>)))"
proof -
  have text_part:
     "(f_title f \<noteq> [] \<and> title w = None
         \<longrightarrow> \<not> keep P f w \<and> w \<notin> set (filteredWorks P works f))
    \<and> (f_author f \<noteq> [] \<and> author w = None
         \<longrightarrow> \<not> keep P f w \<and> w \<notin> set (filteredWorks P works f))
    \<and> (f_circle f \<noteq> [] \<and> circle w = None
         \<longrightarrow> \<not> keep P f w \<and> w \<notin> set (filteredWorks P works f))
    \<and> (f_summary f \<noteq> [] \<and> summary w = None
         \<longrightarrow> \<not> keep P f w \<and> w \<notin> set (filteredWorks P works f))
    \<and> (f_purchase_event f \<noteq> [] \<and> purchase_event w = None
         \<longrightarrow> \<not> keep P f w \<and> w \<notin> set (filteredWorks P works f))"
    if ok: "lowers_nonempty P"
  proof -
    have none: "\<not> passes_text P crit None" if "crit \<noteq> []" for crit
      using that by (simp add: passes_text_criterion [OF ok] text_criterion_def)
    have c1: "\<not> keep P f w" if "f_title f \<noteq> [] \<and> title w = None"
      using keep_split_title [of P f w] none that by auto
    have c2: "\<not> keep P f w" if "f_author f \<noteq> [] \<and> author w = None"
      using keep_split_author [of P f w] none that by (auto simp add: opt_name_def)
    have c3: "\<not> keep P f w" if "f_circle f \<noteq> [] \<and> circle w = None"
      using keep_split_circle [of P f w] none that by (auto simp add: opt_name_def)
    have c4: "\<not> keep P f w" if "f_summary f \<noteq> [] \<and> summary w = None"
      using keep_split_summary [of P f w] none that by auto
    have c5: "\<not> keep P f w" if "f_purchase_event f \<noteq> [] \<and> purchase_event w = None"
      using keep_split_purchase_event [of P f w] none that by (auto simp add: opt_name_def)
    from c1 c2 c3 c4 c5 not_kept_not_returned [of P f w works] show ?thesis
      by blast
  qed
  have a: "lower_bound (fromDate P f) (dateVal P (purchase_date v))
      = (\<exists>d. purchase_date v = Some d \<and> d \<noteq> []
              \<and> \<not> js_lt (Date_getTime P d) (Date_getTime P (f_date_from f)))"
    if "f_date_from f \<noteq> []" for v
    using that by (auto simp add: lower_bound_def fromDate_def dateVal_def split: option.splits)
  have b: "upper_bound (toDate P f) (dateVal P (purchase_date v))
      = (\<exists>d. purchase_date v = Some d \<and> d \<noteq> []
              \<and> \<not> js_gt (Date_getTime P d) (Date_getTime P (f_date_to f)))"
    if "f_date_to f \<noteq> []" for v
    using that
    by (auto simp add: upper_bound_def toDate_def dateVal_def js_gt_def split: option.splits)
  have lo: "keep P f v = (keep P (f\<lparr>f_date_from := []\<rparr>) v
              \<and> (\<exists>d. purchase_date v = Some d \<and> d \<noteq> []
                     \<and> \<not> js_lt (Date_getTime P d) (Date_getTime P (f_date_from f))))"
    if "f_date_from f \<noteq> []" for v
    by (subst keep_split_date_from) (simp only: a [OF that, of v])
  have hi: "keep P f v = (keep P (f\<lparr>f_date_to := []\<rparr>) v
              \<and> (\<exists>d. purchase_date v = Some d \<and> d \<noteq> []
                     \<and> \<not> js_gt (Date_getTime P d) (Date_getTime P (f_date_to f))))"
    if "f_date_to f \<noteq> []" for v
    by (subst keep_split_date_to) (simp only: b [OF that, of v])
  have from_part:
     "(purchase_date w = None \<or> purchase_date w = Some []
           \<longrightarrow> \<not> keep P f w \<and> w \<notin> set (filteredWorks P works f))
      \<and> (\<forall>d. purchase_date w = Some d \<and> d \<noteq> []
               \<and> js_lt (Date_getTime P d) (Date_getTime P (f_date_from f))
           \<longrightarrow> \<not> keep P f w \<and> w \<notin> set (filteredWorks P works f))
      \<and> (\<forall>d. purchase_date w = Some d \<and> d \<noteq> []
               \<and> Date_getTime P d = Date_getTime P (f_date_from f)
           \<longrightarrow> keep P f w = keep P (f\<lparr>f_date_from := []\<rparr>) w
               \<and> (w \<in> set (filteredWorks P works f))
                 = (w \<in> set (filteredWorks P works (f\<lparr>f_date_from := []\<rparr>))))
      \<and> filteredWorks P works f
          = filter (\<lambda>v. \<exists>d. purchase_date v = Some d \<and> d \<noteq> []
                            \<and> \<not> js_lt (Date_getTime P d) (Date_getTime P (f_date_from f)))
              (filteredWorks P works (f\<lparr>f_date_from := []\<rparr>))"
    if m: "f_date_from f \<noteq> []"
  proof (intro conjI impI allI)
    assume "purchase_date w = None \<or> purchase_date w = Some []"
    with lo [OF m, of w] show "\<not> keep P f w" by auto
    then show "w \<notin> set (filteredWorks P works f)" by (rule not_kept_not_returned)
  next
    fix d
    assume "purchase_date w = Some d \<and> d \<noteq> []
               \<and> js_lt (Date_getTime P d) (Date_getTime P (f_date_from f))"
    with lo [OF m, of w] show "\<not> keep P f w" by simp
    then show "w \<notin> set (filteredWorks P works f)" by (rule not_kept_not_returned)
  next
    fix d
    assume "purchase_date w = Some d \<and> d \<noteq> []
               \<and> Date_getTime P d = Date_getTime P (f_date_from f)"
    with lo [OF m, of w] show same: "keep P f w = keep P (f\<lparr>f_date_from := []\<rparr>) w" by simp
    then show "(w \<in> set (filteredWorks P works f))
                 = (w \<in> set (filteredWorks P works (f\<lparr>f_date_from := []\<rparr>)))"
      by (rule kept_alike)
  next
    show "filteredWorks P works f
          = filter (\<lambda>v. \<exists>d. purchase_date v = Some d \<and> d \<noteq> []
                            \<and> \<not> js_lt (Date_getTime P d) (Date_getTime P (f_date_from f)))
              (filteredWorks P works (f\<lparr>f_date_from := []\<rparr>))"
      by (rule filteredWorks_split) (rule lo [OF m])
  qed
  have to_part:
     "(purchase_date w = None \<or> purchase_date w = Some []
           \<longrightarrow> \<not> keep P f w \<and> w \<notin> set (filteredWorks P works f))
      \<and> (\<forall>d. purchase_date w = Some d \<and> d \<noteq> []
               \<and> js_gt (Date_getTime P d) (Date_getTime P (f_date_to f))
           \<longrightarrow> \<not> keep P f w \<and> w \<notin> set (filteredWorks P works f))
      \<and> (\<forall>d. purchase_date w = Some d \<and> d \<noteq> []
               \<and> Date_getTime P d = Date_getTime P (f_date_to f)
           \<longrightarrow> keep P f w = keep P (f\<lparr>f_date_to := []\<rparr>) w
               \<and> (w \<in> set (filteredWorks P works f))
                 = (w \<in> set (filteredWorks P works (f\<lparr>f_date_to := []\<rparr>))))
      \<and> filteredWorks P works f
          = filter (\<lambda>v. \<exists>d. purchase_date v = Some d \<and> d \<noteq> []
                            \<and> \<not> js_gt (Date_getTime P d) (Date_getTime P (f_date_to f)))
              (filteredWorks P works (f\<lparr>f_date_to := []\<rparr>))"
    if m: "f_date_to f \<noteq> []"
  proof (intro conjI impI allI)
    assume "purchase_date w = None \<or> purchase_date w = Some []"
    with hi [OF m, of w] show "\<not> keep P f w" by auto
    then show "w \<notin> set (filteredWorks P works f)" by (rule not_kept_not_returned)
  next
    fix d
    assume "purchase_date w = Some d \<and> d \<noteq> []
               \<and> js_gt (Date_getTime P d) (Date_getTime P (f_date_to f))"
    with hi [OF m, of w] show "\<not> keep P f w" by simp
    then show "w \<notin> set (filteredWorks P works f)" by (rule not_kept_not_returned)
  next
    fix d
    assume "purchase_date w = Some d \<and> d \<noteq> []
               \<and> Date_getTime P d = Date_getTime P (f_date_to f)"
    with hi [OF m, of w] show same: "keep P f w = keep P (f\<lparr>f_date_to := []\<rparr>) w"
      by (simp add: js_gt_def)
    then show "(w \<in> set (filteredWorks P works f))
                 = (w \<in> set (filteredWorks P works (f\<lparr>f_date_to := []\<rparr>)))"
      by (rule kept_alike)
  next
    show "filteredWorks P works f
          = filter (\<lambda>v. \<exists>d. purchase_date v = Some d \<and> d \<noteq> []
                            \<and> \<not> js_gt (Date_getTime P d) (Date_getTime P (f_date_to f)))
              (filteredWorks P works (f\<lparr>f_date_to := []\<rparr>))"
      by (rule filteredWorks_split) (rule hi [OF m])
  qed
  from text_part from_part to_part show ?thesis
    by blast
qed

theorem missing_values_fail_witness:
  "lowers_nonempty sample_platform
   \<and> \<not> keep sample_platform text_filters bare_work
   \<and> bare_work \<notin> set (filteredWorks sample_platform [bare_work, sample_work, r18_work]
                          text_filters)
   \<and> bare_work \<notin> set (filteredWorks sample_platform [bare_work, sample_work, r18_work]
                          (initial_filters\<lparr>f_date_from := ''2024-01-05''\<rparr>))
   \<and> sample_work \<notin> set (filteredWorks sample_platform [bare_work, sample_work, r18_work]
                            (initial_filters\<lparr>f_date_from := ''2024-02-01''\<rparr>))
   \<and> sample_work \<in> set (filteredWorks sample_platform [bare_work, sample_work, r18_work]
                            (initial_filters\<lparr>f_date_from := ''2024-01-05''\<rparr>))
   \<and> bare_work \<notin> set (filteredWorks sample_platform [bare_work, sample_work, r18_work]
                          (initial_filters\<lparr>f_date_to := ''2024-02-01''\<rparr>))
   \<and> r18_work \<notin> set (filteredWorks sample_platform [bare_work, sample_work, r18_work]
                         (initial_filters\<lparr>f_date_to := ''2024-01-05''\<rparr>))
   \<and> r18_work \<in> set (filteredWorks sample_platform [bare_work, sample_work, r18_work]
                         (initial_filters\<lparr>f_date_to := ''2024-02-01''\<rparr>))
   \<and> filteredWorks sample_platform [bare_work, sample_work, r18_work]
        (initial_filters\<lparr>f_date_from := ''2024-02-01''\<rparr>) = [r18_work]"
proof -
  let ?ws = "[bare_work, sample_work, r18_work]"
  have title: "f_title text_filters \<noteq> [] \<and> title bare_work = None"
    by (simp add: text_filters_def bare_work_def)
  have nodate: "purchase_date bare_work = None \<or> purchase_date bare_work = Some []"
    by (simp add: bare_work_def)
  have d1: "purchase_date sample_work = Some ''2024-01-05'' \<and> ''2024-01-05'' \<noteq> []
            \<and> js_lt (Date_getTime sample_platform ''2024-01-05'')
                 (Date_getTime sample_platform
                    (f_date_from (initial_filters\<lparr>f_date_from := ''2024-02-01''\<rparr>)))"
    by (simp add: sample_work_def sample_platform_def)
  have d2: "purchase_date sample_work = Some ''2024-01-05'' \<and> ''2024-01-05'' \<noteq> []
            \<and> Date_getTime sample_platform ''2024-01-05''
              = Date_getTime sample_platform
                  (f_date_from (initial_filters\<lparr>f_date_from := ''2024-01-05''\<rparr>))"
    by (simp add: sample_work_def)
  have d3: "purchase_date r18_work = Some ''2024-02-01'' \<and> ''2024-02-01'' \<noteq> []
            \<and> js_gt (Date_getTime sample_platform ''2024-02-01'')
                 (Date_getTime sample_platform
                    (f_date_to (initial_filters\<lparr>f_date_to := ''2024-01-05''\<rparr>)))"
    by (simp add: r18_work_def sample_platform_def js_gt_def)
  have d4: "purchase_date r18_work = Some ''2024-02-01'' \<and> ''2024-02-01'' \<noteq> []
            \<and> Date_getTime sample_platform ''2024-02-01''
              = Date_getTime sample_platform
                  (f_date_to (initial_filters\<lparr>f_date_to := ''2024-02-01''\<rparr>))"
    by (simp add: r18_work_def)
  have reset: "initial_filters\<lparr>f_date_from := ''2024-01-05'', f_date_from := []\<rparr> = initial_filters"
    "initial_filters\<lparr>f_date_to := ''2024-02-01'', f_date_to := []\<rparr> = initial_filters"
    by (simp_all add: initial_filters_def)
  have all0: "filteredWorks sample_platform ?ws initial_filters = ?ws"
    by (rule filteredWorks_no_criteria)
  note text_inst = missing_values_fail
      [where P = sample_platform and f = text_filters and w = bare_work and works = ?ws,
       THEN conjunct1, THEN mp, OF lowers_nonempty_sample]
  have a: "\<not> keep sample_platform text_filters bare_work
           \<and> bare_work \<notin> set (filteredWorks sample_platform ?ws text_filters)"
    using text_inst [THEN conjunct1, THEN mp, OF title] .
  have b: "bare_work \<notin> set (filteredWorks sample_platform ?ws
                               (initial_filters\<lparr>f_date_from := ''2024-01-05''\<rparr>))"
    using missing_values_fail
      [where P = sample_platform and f = "initial_filters\<lparr>f_date_from := ''2024-01-05''\<rparr>"
         and w = bare_work and works = ?ws,
       THEN conjunct2, THEN conjunct1, THEN mp, THEN conjunct1, THEN mp, OF _ nodate]
    by simp
  have c: "sample_work \<notin> set (filteredWorks sample_platform ?ws
                                 (initial_filters\<lparr>f_date_from := ''2024-02-01''\<rparr>))"
    using missing_values_fail
      [where P = sample_platform and f = "initial_filters\<lparr>f_date_from := ''2024-02-01''\<rparr>"
         and w = sample_work and works = ?ws,
       THEN conjunct2, THEN conjunct1, THEN mp, THEN conjunct2, THEN conjunct1, THEN spec,
       THEN mp, OF _ d1]
    by simp
  have d: "sample_work \<in> set (filteredWorks sample_platform ?ws
                                 (initial_filters\<lparr>f_date_from := ''2024-01-05''\<rparr>))"
    using missing_values_fail
      [where P = sample_platform and f = "initial_filters\<lparr>f_date_from := ''2024-01-05''\<rparr>"
         and w = sample_work and works = ?ws,
       THEN conjunct2, THEN conjunct1, THEN mp, THEN conjunct2, THEN conjunct2,
       THEN conjunct1, THEN spec, THEN mp, OF _ d2]
    by (simp add: reset all0)
  have e: "bare_work \<notin> set (filteredWorks sample_platform ?ws
                               (initial_filters\<lparr>f_date_to := ''2024-02-01''\<rparr>))"
    using missing_values_fail
      [where P = sample_platform and f = "initial_filters\<lparr>f_date_to := ''2024-02-01''\<rparr>"
         and w = bare_work and works = ?ws,
       THEN conjunct2, THEN conjunct2, THEN mp, THEN conjunct1, THEN mp, OF _ nodate]
    by simp
  have g: "r18_work \<notin> set (filteredWorks sample_platform ?ws
                              (initial_filters\<lparr>f_date_to := ''2024-01-05''\<rparr>))"
    using missing_values_fail
      [where P = sample_platform and f = "initial_filters\<lparr>f_date_to := ''2024-01-05''\<rparr>"
         and w = r18_work and works = ?ws,
       THEN conjunct2, THEN conjunct2, THEN mp, THEN conjunct2, THEN conjunct1, THEN spec,
       THEN mp, OF _ d3]
    by simp
  have h: "r18_work \<in> set (filteredWorks sample_platform ?ws
                              (initial_filters\<lparr>f_date_to := ''2024-02-01''\<rparr>))"
    using missing_values_fail
      [where P = sample_platform and f = "initial_filters\<lparr>f_date_to := ''2024-02-01''\<rparr>"
         and w = r18_work and works = ?ws,
       THEN conjunct2, THEN conjunct2, THEN mp, THEN conjunct2, THEN conjunct2,
       THEN conjunct1, THEN spec, THEN mp, OF _ d4]
    by (simp add: reset all0)
  have i: "filteredWorks sample_platform ?ws (initial_filters\<lparr>f_date_from := ''2024-02-01''\<rparr>)
             = [r18_work]"
    by (simp add: eval_defs)
  from lowers_nonempty_sample a b c d e g h i show ?thesis
    by (intro conjI) simp_all
qed

text \<open>
  C6. The R-18 criterion is tri-state. At \<^verbatim>\<open>all\<close> the outcome does not depend on the flag
  of the work, and with no other criterion every work is returned. At \<^verbatim>\<open>true\<close> a work is
  kept exactly when the other criteria keep it and its flag is true, so the works excluded
  by the criterion are those whose flag is false or absent. At \<^verbatim>\<open>false\<close> a work is kept
  exactly when the other criteria keep it and its flag is false or absent, so the works
  excluded are those whose flag is true.
\<close>

theorem isR18_tristate:
  "keep P (f\<lparr>f_is_r18 := ''all''\<rparr>) (w\<lparr>is_r18 := b\<rparr>) = keep P (f\<lparr>f_is_r18 := ''all''\<rparr>) w
   \<and> keep P (f\<lparr>f_is_r18 := ''true''\<rparr>) w
       = (keep P (f\<lparr>f_is_r18 := ''all''\<rparr>) w \<and> is_r18 w = Some True)
   \<and> keep P (f\<lparr>f_is_r18 := ''false''\<rparr>) w
       = (keep P (f\<lparr>f_is_r18 := ''all''\<rparr>) w \<and> (is_r18 w = Some False \<or> is_r18 w = None))
   \<and> filteredWorks P works (initial_filters\<lparr>f_is_r18 := ''all''\<rparr>) = works
   \<and> filteredWorks P works (initial_filters\<lparr>f_is_r18 := ''true''\<rparr>)
       = filter (\<lambda>w. is_r18 w = Some True) works
   \<and> filteredWorks P works (initial_filters\<lparr>f_is_r18 := ''false''\<rparr>)
       = filter (\<lambda>w. is_r18 w = Some False \<or> is_r18 w = None) works"
proof -
  have flag: "Boolean v = (v = Some True)" for v
    by (cases v) (simp_all add: Boolean_def)
  have nflag: "(\<not> Boolean v) = (v = Some False \<or> v = None)" for v
    by (cases v) (simp_all add: Boolean_def)
  have indep: "keep P (f\<lparr>f_is_r18 := ''all''\<rparr>) (w\<lparr>is_r18 := b\<rparr>)
                = keep P (f\<lparr>f_is_r18 := ''all''\<rparr>) w"
    by (simp add: keep_conj work_price_def bound_defs)
  have t: "keep P (f\<lparr>f_is_r18 := ''true''\<rparr>) w
             = (keep P (f\<lparr>f_is_r18 := ''all''\<rparr>) w \<and> is_r18 w = Some True)"
    using keep_split_is_r18 [of P "f\<lparr>f_is_r18 := ''true''\<rparr>" w]
    by (simp add: r18_criterion_def flag)
  have n: "keep P (f\<lparr>f_is_r18 := ''false''\<rparr>) w
             = (keep P (f\<lparr>f_is_r18 := ''all''\<rparr>) w \<and> (is_r18 w = Some False \<or> is_r18 w = None))"
    using keep_split_is_r18 [of P "f\<lparr>f_is_r18 := ''false''\<rparr>" w]
    by (simp add: r18_criterion_def nflag)
  have all0: "keep P (initial_filters\<lparr>f_is_r18 := ''all''\<rparr>) v" for v
    by (simp add: keep_conj initial_filters_def bound_defs)
  have l0: "filteredWorks P works (initial_filters\<lparr>f_is_r18 := ''all''\<rparr>) = works"
    by (simp add: filteredWorks_def all0)
  have l1: "filteredWorks P works (initial_filters\<lparr>f_is_r18 := ''true''\<rparr>)
       = filter (\<lambda>w. is_r18 w = Some True) works"
    unfolding filteredWorks_def
    by (rule filter_cong)
       (simp_all add: keep_conj initial_filters_def bound_defs r18_criterion_def flag)
  have l2: "filteredWorks P works (initial_filters\<lparr>f_is_r18 := ''false''\<rparr>)
       = filter (\<lambda>w. is_r18 w = Some False \<or> is_r18 w = None) works"
    unfolding filteredWorks_def
    by (rule filter_cong)
       (simp_all add: keep_conj initial_filters_def bound_defs r18_criterion_def nflag)
  from indep t n l0 l1 l2 show ?thesis by blast
qed

theorem isR18_tristate_witness:
  "filteredWorks sample_platform [sample_work, r18_work, bare_work]
      (initial_filters\<lparr>f_is_r18 := ''all''\<rparr>) = [sample_work, r18_work, bare_work]
   \<and> filteredWorks sample_platform [sample_work, r18_work, bare_work]
      (initial_filters\<lparr>f_is_r18 := ''true''\<rparr>) = [r18_work]
   \<and> filteredWorks sample_platform [sample_work, r18_work, bare_work]
      (initial_filters\<lparr>f_is_r18 := ''false''\<rparr>) = [sample_work, bare_work]"
  using isR18_tristate [where P = sample_platform and f = initial_filters and w = sample_work
                           and b = None and works = "[sample_work, r18_work, bare_work]"]
  by (simp add: sample_work_def r18_work_def bare_work_def)

text \<open>
  C7. For a non-empty extra-text criterion, a work passes exactly when the serialisation of
  its extra-attribute mapping (of the empty mapping when the work has none) contains the
  criterion as a case-insensitive substring; the criterion combines by conjunction with the
  other criteria, on the callback and on the result list.
\<close>

theorem extraText_match:
  "f_extra f \<noteq> [] \<longrightarrow>
     (keep P f w \<longleftrightarrow>
        keep P (f\<lparr>f_extra := []\<rparr>) w
        \<and> sublist (toLowerCase P (f_extra f))
             (toLowerCase P (JSON_stringify (case extra w of None \<Rightarrow> [] | Some e \<Rightarrow> e))))
     \<and> filteredWorks P works f
         = filter (\<lambda>v. sublist (toLowerCase P (f_extra f))
                          (toLowerCase P
                             (JSON_stringify (case extra v of None \<Rightarrow> [] | Some e \<Rightarrow> e))))
             (filteredWorks P works (f\<lparr>f_extra := []\<rparr>))"
proof
  assume m: "f_extra f \<noteq> []"
  have split: "keep P f v = (keep P (f\<lparr>f_extra := []\<rparr>) v
        \<and> sublist (toLowerCase P (f_extra f))
             (toLowerCase P (JSON_stringify (case extra v of None \<Rightarrow> [] | Some e \<Rightarrow> e))))"
    for v
    using keep_split_extra [of P f v] m by (simp add: extra_criterion_def)
  have lst: "filteredWorks P works f
         = filter (\<lambda>v. sublist (toLowerCase P (f_extra f))
                          (toLowerCase P
                             (JSON_stringify (case extra v of None \<Rightarrow> [] | Some e \<Rightarrow> e))))
             (filteredWorks P works (f\<lparr>f_extra := []\<rparr>))"
    by (rule filteredWorks_split) (rule split)
  from split [of w] lst
  show "(keep P f w \<longleftrightarrow>
        keep P (f\<lparr>f_extra := []\<rparr>) w
        \<and> sublist (toLowerCase P (f_extra f))
             (toLowerCase P (JSON_stringify (case extra w of None \<Rightarrow> [] | Some e \<Rightarrow> e))))
     \<and> filteredWorks P works f
         = filter (\<lambda>v. sublist (toLowerCase P (f_extra f))
                          (toLowerCase P
                             (JSON_stringify (case extra v of None \<Rightarrow> [] | Some e \<Rightarrow> e))))
             (filteredWorks P works (f\<lparr>f_extra := []\<rparr>))"
    by (rule conjI)
qed

theorem extraText_match_witness:
  "keep sample_platform (initial_filters\<lparr>f_extra := ''PAGES''\<rparr>) sample_work
   \<and> \<not> keep sample_platform (initial_filters\<lparr>f_extra := ''PAGES''\<rparr>) bare_work
   \<and> keep sample_platform (initial_filters\<lparr>f_extra := ''{}''\<rparr>) bare_work"
proof -
  have low: "toLowerCase sample_platform = ascii_lower"
    by (simp add: sample_platform_def)
  have base: "keep sample_platform (initial_filters\<lparr>f_extra := []\<rparr>) sample_work"
    "keep sample_platform (initial_filters\<lparr>f_extra := []\<rparr>) bare_work"
    by (simp_all add: eval_defs)
  have s1: "JSON_stringify (case extra sample_work of None \<Rightarrow> [] | Some e \<Rightarrow> e)
              = [CHR ''{'', CHR 0x22] @ ''Pages'' @ [CHR 0x22, CHR '':'', CHR 0x22] @ ''24''
                @ [CHR 0x22, CHR ''}'']"
    by (simp add: sample_work_def JSON_stringify_def json_quote_def json_escape_def)
  have s2: "JSON_stringify (case extra bare_work of None \<Rightarrow> [] | Some e \<Rightarrow> e) = ''{}''"
    by (simp add: bare_work_def JSON_stringify_def)
  have a: "keep sample_platform (initial_filters\<lparr>f_extra := ''PAGES''\<rparr>) sample_work"
    using extraText_match
            [where f = "initial_filters\<lparr>f_extra := ''PAGES''\<rparr>" and P = sample_platform
               and w = sample_work and works = "[]", THEN mp, THEN conjunct1] base
    by (simp add: s1 low ascii_lower_def lower_char_def sublist_Cons_right)
  have b: "\<not> keep sample_platform (initial_filters\<lparr>f_extra := ''PAGES''\<rparr>) bare_work"
    using extraText_match
            [where f = "initial_filters\<lparr>f_extra := ''PAGES''\<rparr>" and P = sample_platform
               and w = bare_work and works = "[]", THEN mp, THEN conjunct1]
    by (simp add: s2 low ascii_lower_def lower_char_def sublist_Cons_right)
  have c: "keep sample_platform (initial_filters\<lparr>f_extra := ''{}''\<rparr>) bare_work"
    using extraText_match
            [where f = "initial_filters\<lparr>f_extra := ''{}''\<rparr>" and P = sample_platform
               and w = bare_work and works = "[]", THEN mp, THEN conjunct1] base
    by (simp add: s2 low ascii_lower_def lower_char_def sublist_Cons_right)
  from a b c show ?thesis by (intro conjI)
qed

subsection \<open>The extra-attribute rows of the form\<close>

lemma length_spread [simp]: "length (spread xs) = length xs"
  by (simp add: spread_def)

lemma assign_index_nonempty: "assign_index next index x \<noteq> []"
  by (auto simp add: assign_index_def)

lemma length_assign_index:
  "length (assign_index next index x) = max (length next) (Suc index)"
  by (auto simp add: assign_index_def)

lemma updateExtra_nonempty: "form_extra (updateExtra index k v f) \<noteq> []"
  by (simp add: updateExtra_def Let_def assign_index_nonempty)

text \<open>At the index of an element the array keeps its length; beyond the array it grows to
  the index plus one.\<close>

lemma updateExtra_length:
  "length (form_extra (updateExtra index k v f)) = max (length (form_extra f)) (Suc index)"
  by (simp add: updateExtra_def Let_def length_assign_index)

lemma removeExtraRow_nonempty: "form_extra (removeExtraRow index f) \<noteq> []"
  by (simp add: removeExtraRow_def Let_def)

lemma addExtraRow_nonempty: "form_extra (addExtraRow f) \<noteq> []"
  by (simp add: addExtraRow_def)

lemma empty_form_nonempty: "form_extra empty_form \<noteq> []"
  by (simp add: empty_form_def)

lemma startEdit_nonempty: "form_extra (form (startEdit P work s)) \<noteq> []"
  by (simp add: startEdit_def split: option.splits)

lemma cancelEdit_nonempty: "form_extra (form (cancelEdit s)) \<noteq> []"
  by (simp add: cancelEdit_def empty_form_nonempty)

lemma submit_nonempty: "form_extra (form (submit True s)) \<noteq> []"
  by (simp add: submit_def empty_form_nonempty)

lemma updateField_extra [simp]: "form_extra (updateField i f) = form_extra f"
  by (cases i) simp_all

lemma fire_nonempty:
  assumes "form_extra (form s) \<noteq> []"
  shows "form_extra (form (fire P e s)) \<noteq> []"
proof (cases e)
  case (Submit ok)
  with assms show ?thesis
    by (cases ok) (simp_all add: submit_def empty_form_nonempty)
qed (use assms in \<open>simp_all add: setCover_def updateExtra_nonempty addExtraRow_nonempty
       removeExtraRow_nonempty startEdit_nonempty cancelEdit_nonempty\<close>)

lemma run_nonempty:
  "form_extra (form s) \<noteq> [] \<Longrightarrow> form_extra (form (run P es s)) \<noteq> []"
proof (induction es arbitrary: s)
  case Nil
  then show ?case by simp
next
  case (Cons e es)
  then show ?case
    by (simp add: fire_nonempty)
qed

text \<open>
  C10. The extra-attribute row list of the form is never empty. It has one row in the
  initial state; it has at least one element after adding a row, after updating a row
  (at any index), after removing any row (the last one included), after a submit that
  resets the form, after starting an edit of any work (with or without extra attributes)
  and after cancelling an edit; and it has at least one element in every state the events
  of the form lead to from the initial state.
\<close>

theorem form_extra_never_empty:
  "form_extra (form initial_state) \<noteq> []
   \<and> form_extra (addExtraRow f) \<noteq> []
   \<and> form_extra (updateExtra index k v f) \<noteq> []
   \<and> form_extra (removeExtraRow index f) \<noteq> []
   \<and> form_extra (form (submit True s)) \<noteq> []
   \<and> form_extra (form (startEdit P work s)) \<noteq> []
   \<and> form_extra (form (cancelEdit s)) \<noteq> []
   \<and> form_extra (form (run P es initial_state)) \<noteq> []"
proof -
  have init: "form_extra (form initial_state) \<noteq> []"
    by (simp add: initial_state_def empty_form_nonempty)
  from init addExtraRow_nonempty updateExtra_nonempty removeExtraRow_nonempty submit_nonempty
    startEdit_nonempty cancelEdit_nonempty run_nonempty [OF init]
  show ?thesis by (intro conjI)
qed

theorem form_extra_never_empty_witness:
  "form_extra (updateExtra 0 KeyField ''Pages'' empty_form)
     = [Row \<lparr> row_key = Some ''Pages'', row_value = Some [] \<rparr>]
   \<and> form_extra (updateExtra 2 KeyField ''Pages'' empty_form)
     = [emptyExtraRow, Hole, Row \<lparr> row_key = Some ''Pages'', row_value = None \<rparr>]
   \<and> form_extra (removeExtraRow 0 empty_form) = [emptyExtraRow]
   \<and> form_extra (form (run sample_platform sample_events initial_state))
     = [Row \<lparr> row_key = Some ''Pages'', row_value = None \<rparr>]
   \<and> form_extra (form (run sample_platform sample_events initial_state)) \<noteq> []"
proof -
  have a: "form_extra (updateExtra 0 KeyField ''Pages'' empty_form)
     = [Row \<lparr> row_key = Some ''Pages'', row_value = Some [] \<rparr>]"
    by (simp add: updateExtra_def Let_def spread_def spread_row_def assign_index_def
        set_row_field_def empty_form_def emptyExtraRow_def)
  have b: "form_extra (updateExtra 2 KeyField ''Pages'' empty_form)
     = [emptyExtraRow, Hole, Row \<lparr> row_key = Some ''Pages'', row_value = None \<rparr>]"
    by (simp add: updateExtra_def Let_def spread_def spread_row_def assign_index_def
        set_row_field_def empty_form_def emptyExtraRow_def)
  have c: "form_extra (removeExtraRow 0 empty_form) = [emptyExtraRow]"
    by (simp add: removeExtraRow_def Let_def empty_form_def)
  have d: "form_extra (form (run sample_platform sample_events initial_state))
     = [Row \<lparr> row_key = Some ''Pages'', row_value = None \<rparr>]"
    by (simp add: sample_events_def initial_state_def empty_form_def addExtraRow_def
        updateExtra_def spread_def spread_row_def assign_index_def set_row_field_def
        removeExtraRow_def Let_def submit_def startEdit_def cancelEdit_def bare_work_def
        sample_work_def emptyExtraRow_def upt_rec eval_nat_numeral)
  from form_extra_never_empty [where P = sample_platform and es = sample_events]
  have e: "form_extra (form (run sample_platform sample_events initial_state)) \<noteq> []"
    by simp
  from a b c d e show ?thesis by (intro conjI)
qed

subsection \<open>The extra-attribute mapping\<close>

text \<open>What holds of the mapping for every list of complete rows: the loop does not throw,
  the keys of the mapping are distinct, and a key is bound exactly to the value of the last
  row that carries it (after trimming), except that the empty key and the key
  \<^verbatim>\<open>__proto__\<close> are never bound.\<close>

lemma extraJson_snoc:
  "extraJson P (xs @ [x]) =
     (case extraJson P xs of Inl e \<Rightarrow> Inl e | Inr obj \<Rightarrow> extraJson_step P x obj)"
proof -
  have "extraJson_loop P (xs @ [x]) obj =
     (case extraJson_loop P xs obj of Inl e \<Rightarrow> Inl e | Inr obj' \<Rightarrow> extraJson_step P x obj')"
    for obj
    by (induction xs arbitrary: obj) (simp_all split: sum.splits)
  then show ?thesis
    by (simp add: extraJson_def)
qed

lemma extraJson_step_complete:
  "extraJson_step P (complete_row k v) obj =
     Inr (if trim P k \<noteq> [] then set_property (trim P k) (Some v) obj else obj)"
  by (simp add: extraJson_step_def complete_row_def)

lemma map_of_set_property:
  "map_of (set_property k v obj) k' =
     (if k' = k \<and> k \<noteq> ''__proto__'' then Some v else map_of obj k')"
  by (simp add: set_property_def update_conv')

lemma distinct_set_property:
  "distinct (map fst obj) \<Longrightarrow> distinct (map fst (set_property k v obj))"
  by (simp add: set_property_def distinct_update)

lemma extraJson_complete:
  "\<exists>obj. extraJson P (map (\<lambda>(k, v). complete_row k v) kvs) = Inr obj
         \<and> distinct (map fst obj)
         \<and> (\<forall>k. map_of obj k =
                  (if k = [] \<or> k = ''__proto__'' then None
                   else map_option Some (last_value P k kvs)))"
proof (induction kvs rule: rev_induct)
  case Nil
  then show ?case by (simp add: extraJson_def last_value_def)
next
  case (snoc kv kvs)
  then obtain obj where
    r: "extraJson P (map (\<lambda>(k, v). complete_row k v) kvs) = Inr obj"
    and d: "distinct (map fst obj)"
    and m: "\<And>k. map_of obj k =
                  (if k = [] \<or> k = ''__proto__'' then None
                   else map_option Some (last_value P k kvs))"
    by blast
  obtain k v where kv: "kv = (k, v)"
    by (cases kv)
  let ?obj = "if trim P k \<noteq> [] then set_property (trim P k) (Some v) obj else obj"
  have "extraJson P (map (\<lambda>(k, v). complete_row k v) (kvs @ [kv])) = Inr ?obj"
    by (simp add: kv extraJson_snoc r extraJson_step_complete)
  moreover have "distinct (map fst ?obj)"
    using d by (simp add: distinct_set_property)
  moreover have "map_of ?obj k' =
                  (if k' = [] \<or> k' = ''__proto__'' then None
                   else map_option Some (last_value P k' (kvs @ [kv])))" for k'
    using m [of k'] by (auto simp add: kv map_of_set_property last_value_def)
  ultimately show ?case
    by blast
qed

text \<open>
  C8. The claim: for every sequence of submitted rows the mapping has no duplicate keys, the
  value of the last row wins among the rows that share a trimmed key, and rows whose key
  is empty or white space contribute nothing. The mapping the code builds for two rows
  with the key \<^verbatim>\<open>__proto__\<close> is empty: neither value is stored, although the last such row
  carries the value \<open>b\<close>. The assignment \<^verbatim>\<open>obj[row.key.trim()] = row.value\<close> reaches the
  \<^verbatim>\<open>__proto__\<close> setter of \<^verbatim>\<open>Object.prototype\<close> instead of creating a property.
\<close>

theorem extraJson_proto_dropped:
  "extraJson sample_platform [complete_row ''__proto__'' ''a'', complete_row ''__proto__'' ''b'']
     = Inr []
   \<and> last_value sample_platform ''__proto__'' [(''__proto__'', ''a''), (''__proto__'', ''b'')]
     = Some ''b''"
  by (simp add: extraJson_def extraJson_step_def complete_row_def set_property_def
      last_value_def sample_platform_def ascii_trim_def is_space_def)

end
